theory Spec2Isabelle
  imports Complex_Main "HOL-Library.Word"
begin

section \<open>How a call ends\<close>

text \<open>
  A call of the engine ends in one of three ways: it returns, it throws a script exception
  (\<open>throwException\<close>, \<open>throwVMRangeError\<close>) that the caller can catch, or a
  \<open>RELEASE_ASSERT\<close> fails and the process is aborted. A thrown exception does not undo
  what the call has written so far, so \<open>Thrown\<close> carries the state at the throw.
  \<open>ASSERT\<close> is compiled out of release builds and is not modelled.
\<close>

datatype part = Str string | Num nat

datatype Exception = RangeError "part list"

datatype 'a completion = Returned 'a | Thrown Exception 'a | Crashed

section \<open>The module descriptor (WasmFormat.h, as WebAssemblyModuleRecord.cpp reads it)\<close>

datatype ExternalKind = Function | Table | Memory | Global

datatype Wasm_Type = I32 | I64 | F32 | F64 | Void

datatype Mutability = Mutable | Immutable

record Export =
  Export_field :: string
  Export_kind :: ExternalKind
  Export_kindIndex :: "32 word"

record Wasm_Global =
  Global_mutability :: Mutability
  Global_type :: Wasm_Type

record Signature =
  Signature_arguments :: "Wasm_Type list"
  Signature_returnType :: Wasm_Type

record Element =
  Element_offset :: "32 word"
  Element_functionIndices :: "32 word list"

text \<open>
  A data segment is a header followed by its payload; \<open>Segment_byte s i\<close> is
  \<open>segment->byte(i)\<close>.
\<close>

record Segment =
  Segment_offset :: "32 word"
  Segment_sizeInBytes :: "32 word"
  Segment_byte :: "nat \<Rightarrow> 8 word"

record ModuleInformation =
  exports :: "Export list"
  startFunctionIndexSpace :: "32 word option"
  globals :: "Wasm_Global list"
  elements :: "Element list"
  data :: "Segment list"

text \<open>
  \<open>JSWebAssemblyModule\<close>: the accessors that \<open>link\<close> and \<open>evaluate\<close> call.
  \<open>signatureForFunctionIndexSpace\<close> is declared in a header that is not part of the sources
  and is taken as a field. The export symbol table is the list of names that have a slot in
  the module environment.
\<close>

record JSWebAssemblyModule =
  moduleInformation :: ModuleInformation
  importCount :: "32 word"
  exportSymbolTable :: "string list"
  signatureForFunctionIndexSpace :: "32 word \<Rightarrow> Signature"

section \<open>Heap objects\<close>

text \<open>
  The two entry points of a function are looked up by its index in the function index space
  (\<open>jsEntrypointCalleeFromFunctionIndexSpace\<close>, \<open>wasmEntrypointCalleeFromFunctionIndexSpace\<close>);
  a callee is identified by that index.
\<close>

datatype JSWebAssemblyCallee = JSEntrypointCallee "32 word" | WasmEntrypointCallee "32 word"

text \<open>
  A \<open>WebAssemblyFunction\<close> is a garbage-collected cell. The heap is the list of the cells
  created so far, and a pointer to a cell is its position in that list: two pointers are the
  same object exactly when they are the same number. \<open>WebAssemblyFunction::create\<close>
  allocates a new cell on every call.
\<close>

record WebAssemblyFunction =
  Function_length :: nat
  Function_name :: string
  Function_instance :: nat
  Function_jsEntrypoint :: JSWebAssemblyCallee
  Function_wasmEntrypoint :: JSWebAssemblyCallee
  Function_signature :: Signature

type_synonym heap = "WebAssemblyFunction list"

definition WebAssemblyFunction_create ::
  "heap \<Rightarrow> nat \<Rightarrow> string \<Rightarrow> nat \<Rightarrow> JSWebAssemblyCallee \<Rightarrow> JSWebAssemblyCallee \<Rightarrow> Signature
     \<Rightarrow> nat \<times> heap" where
  "WebAssemblyFunction_create h len name inst jsEntry wasmEntry signature =
     (length h,
      h @ [\<lparr>Function_length = len, Function_name = name, Function_instance = inst,
            Function_jsEntrypoint = jsEntry, Function_wasmEntrypoint = wasmEntry,
            Function_signature = signature\<rparr>])"

text \<open>
  The table has a 32-bit size and slots indexed by a 32-bit index; a slot holds a pointer to
  a function cell or is empty.
\<close>

record JSWebAssemblyTable =
  Table_size :: "32 word"
  Table_functions :: "32 word \<Rightarrow> nat option"

definition setFunction :: "JSWebAssemblyTable \<Rightarrow> 32 word \<Rightarrow> nat \<Rightarrow> JSWebAssemblyTable" where
  "setFunction table index func =
     table\<lparr>Table_functions := (Table_functions table)(index := Some func)\<rparr>"

text \<open>
  Linear memory: \<open>memory()\<close> is the base pointer of the buffer (\<open>None\<close> for a null pointer),
  read here as the bytes found at each offset from it, and \<open>size()\<close> its length in bytes.
\<close>

record Wasm_Memory =
  Memory_memory :: "(nat \<Rightarrow> 8 word) option"
  Memory_size :: "32 word"

text \<open>
  An instance is reached through a pointer; \<open>Instance_address\<close> stands for that pointer.
  Globals are raw 64-bit slots.
\<close>

record JSWebAssemblyInstance =
  Instance_address :: nat
  Instance_module :: JSWebAssemblyModule
  Instance_table :: "JSWebAssemblyTable option"
  Instance_memory :: "Wasm_Memory option"
  Instance_globals :: "32 word \<Rightarrow> 64 word"

text \<open>
  Script values as \<open>link\<close> makes them: a pointer to a function cell, the table or the memory
  of an instance, or a number converted from a global's raw bits.
\<close>

datatype JSValue =
    JSEmpty
  | JSUndefined
  | JSFunction nat
  | JSTable nat
  | JSMemory nat
  | JSInt32 "32 word"
  | JSFloat "32 word"
  | JSDouble "64 word"

type_synonym JSModuleEnvironment = "string \<Rightarrow> JSValue option"

record WebAssemblyModuleRecord =
  m_instance :: "JSWebAssemblyInstance option"
  m_startFunction :: "nat option"
  m_moduleEnvironment :: "JSModuleEnvironment option"

type_synonym state = "heap \<times> WebAssemblyModuleRecord"

section \<open>WebAssemblyModuleRecord::evaluate\<close>

subsection \<open>Table population\<close>

definition elementOutOfBounds :: Exception where
  "elementOutOfBounds = RangeError [Str ''Element is trying to set an out of bounds table index'']"

definition elementImport :: Exception where
  "elementImport = RangeError
     [Str ''Element is setting the table value with an import. This is not yet implemented. FIXME.'']"

text \<open>
  The inner loop over \<open>element.functionIndices\<close>; \<open>tableIndex\<close> is a \<open>uint32_t\<close> and
  \<open>++tableIndex\<close> wraps.
\<close>

fun evaluate_functionIndices ::
  "JSWebAssemblyModule \<Rightarrow> nat \<Rightarrow> 32 word list \<Rightarrow> 32 word \<Rightarrow> heap \<times> JSWebAssemblyTable
     \<Rightarrow> (heap \<times> JSWebAssemblyTable) completion" where
  "evaluate_functionIndices jsModule inst [] tableIndex (h, table) = Returned (h, table)"
| "evaluate_functionIndices jsModule inst (functionIndex # rest) tableIndex (h, table) =
     (if functionIndex < importCount jsModule then Thrown elementImport (h, table)
      else
        let signature = signatureForFunctionIndexSpace jsModule functionIndex;
            (func, h') = WebAssemblyFunction_create h (length (Signature_arguments signature)) []
               inst (JSEntrypointCallee functionIndex) (WasmEntrypointCallee functionIndex) signature
        in evaluate_functionIndices jsModule inst rest (tableIndex + 1)
             (h', setFunction table tableIndex func))"

definition lastWrittenIndex :: "Element \<Rightarrow> 64 word" where
  "lastWrittenIndex element =
     ucast (Element_offset element) + of_nat (length (Element_functionIndices element)) - 1"

text \<open>
  One iteration of the loop over \<open>moduleInformation.elements\<close>. A non-empty segment reads
  \<open>table->size()\<close>; without a table this is a null pointer, which validation excludes and
  which is counted as an abort.
\<close>

definition evaluate_element ::
  "JSWebAssemblyModule \<Rightarrow> nat \<Rightarrow> Element \<Rightarrow> heap \<times> JSWebAssemblyTable option
     \<Rightarrow> (heap \<times> JSWebAssemblyTable option) completion" where
  "evaluate_element jsModule inst element s =
     (case s of (h, table) \<Rightarrow>
        if Element_functionIndices element = [] then Returned (h, table)
        else
          (case table of
             None \<Rightarrow> Crashed
           | Some t \<Rightarrow>
               if lastWrittenIndex element \<ge> ucast (Table_size t)
               then Thrown elementOutOfBounds (h, Some t)
               else
                 (case evaluate_functionIndices jsModule inst (Element_functionIndices element)
                         (Element_offset element) (h, t) of
                    Returned (h', t') \<Rightarrow> Returned (h', Some t')
                  | Thrown e (h', t') \<Rightarrow> Thrown e (h', Some t')
                  | Crashed \<Rightarrow> Crashed)))"

fun evaluate_elements ::
  "JSWebAssemblyModule \<Rightarrow> nat \<Rightarrow> Element list \<Rightarrow> heap \<times> JSWebAssemblyTable option
     \<Rightarrow> (heap \<times> JSWebAssemblyTable option) completion" where
  "evaluate_elements jsModule inst [] s = Returned s"
| "evaluate_elements jsModule inst (element # rest) s =
     (case evaluate_element jsModule inst element s of
        Returned s' \<Rightarrow> evaluate_elements jsModule inst rest s'
      | Thrown e s' \<Rightarrow> Thrown e s'
      | Crashed \<Rightarrow> Crashed)"

subsection \<open>Linear memory population\<close>

definition dataSegmentFail :: "32 word \<Rightarrow> 32 word \<Rightarrow> 32 word \<Rightarrow> string \<Rightarrow> Exception" where
  "dataSegmentFail memorySize segmentSize offset args =
     RangeError [Str ''Invalid data segment initialization: segment of '', Num (unat segmentSize),
                 Str '' bytes memory of '', Num (unat memorySize),
                 Str '' bytes, at offset '', Num (unat offset), Str args]"

text \<open>\<open>memcpy dst d src n\<close>: the buffer \<open>dst\<close> after \<open>n\<close> bytes of \<open>src\<close> were copied to offset \<open>d\<close>.\<close>

definition memcpy :: "(nat \<Rightarrow> 8 word) \<Rightarrow> nat \<Rightarrow> (nat \<Rightarrow> 8 word) \<Rightarrow> nat \<Rightarrow> nat \<Rightarrow> 8 word" where
  "memcpy dst d src n = (\<lambda>a. if d \<le> a \<and> a < d + n then src (a - d) else dst a)"

text \<open>One iteration of the loop over the data segments.\<close>

definition evaluate_segment ::
  "32 word \<Rightarrow> Segment \<Rightarrow> (nat \<Rightarrow> 8 word) \<Rightarrow> (nat \<Rightarrow> 8 word) completion" where
  "evaluate_segment sizeInBytes segment memory =
     (if Segment_sizeInBytes segment \<noteq> 0 then
        if sizeInBytes < Segment_sizeInBytes segment
        then Thrown (dataSegmentFail sizeInBytes (Segment_sizeInBytes segment) (Segment_offset segment)
                       '', segment is too big'') memory
        else if Segment_offset segment > sizeInBytes - Segment_sizeInBytes segment
        then Thrown (dataSegmentFail sizeInBytes (Segment_sizeInBytes segment) (Segment_offset segment)
                       '', segment writes outside of memory'') memory
        else Returned (memcpy memory (unat (Segment_offset segment)) (Segment_byte segment)
                         (unat (Segment_sizeInBytes segment)))
      else Returned memory)"

fun evaluate_segments ::
  "32 word \<Rightarrow> Segment list \<Rightarrow> (nat \<Rightarrow> 8 word) \<Rightarrow> (nat \<Rightarrow> 8 word) completion" where
  "evaluate_segments sizeInBytes [] memory = Returned memory"
| "evaluate_segments sizeInBytes (segment # rest) memory =
     (case evaluate_segment sizeInBytes segment memory of
        Returned memory' \<Rightarrow> evaluate_segments sizeInBytes rest memory'
      | Thrown e memory' \<Rightarrow> Thrown e memory'
      | Crashed \<Rightarrow> Crashed)"

text \<open>
  The second block of \<open>evaluate\<close>: nothing happens when the jsModule has no data segments;
  otherwise the inst must have a memory with a non-null buffer.
\<close>

definition evaluate_data :: "Segment list \<Rightarrow> Wasm_Memory option \<Rightarrow> Wasm_Memory option completion" where
  "evaluate_data segments jsMemory =
     (if segments = [] then Returned jsMemory
      else
        (case jsMemory of
           None \<Rightarrow> Crashed
         | Some m \<Rightarrow>
             (case Memory_memory m of
                None \<Rightarrow> Crashed
              | Some memory \<Rightarrow>
                  (case evaluate_segments (Memory_size m) segments memory of
                     Returned memory' \<Rightarrow> Returned (Some (m\<lparr>Memory_memory := Some memory'\<rparr>))
                   | Thrown e memory' \<Rightarrow> Thrown e (Some (m\<lparr>Memory_memory := Some memory'\<rparr>))
                   | Crashed \<Rightarrow> Crashed))))"

subsection \<open>The whole of evaluate\<close>

text \<open>
  \<open>call\<close> is \<open>WebAssemblyFunction::call\<close> on the start function: it runs compiled code and
  is a parameter. An exception it throws leaves \<open>evaluate\<close> through \<open>RETURN_IF_EXCEPTION\<close>.
  \<open>evaluate\<close> reads the instance through \<open>m_instance\<close>; on a record that was never linked this
  is a null pointer.
\<close>

definition evaluate ::
  "(nat \<Rightarrow> state \<Rightarrow> state completion) \<Rightarrow> heap \<Rightarrow> WebAssemblyModuleRecord \<Rightarrow> state completion" where
  "evaluate call h r =
     (case m_instance r of
        None \<Rightarrow> Crashed
      | Some inst \<Rightarrow>
          (case evaluate_elements (Instance_module inst) (Instance_address inst)
                  (elements (moduleInformation (Instance_module inst)))
                  (h, Instance_table inst) of
             Crashed \<Rightarrow> Crashed
           | Thrown e (h', table') \<Rightarrow>
               Thrown e (h', r\<lparr>m_instance := Some (inst\<lparr>Instance_table := table'\<rparr>)\<rparr>)
           | Returned (h', table') \<Rightarrow>
               (case evaluate_data (data (moduleInformation (Instance_module inst)))
                       (Instance_memory inst) of
                  Crashed \<Rightarrow> Crashed
                | Thrown e memory' \<Rightarrow>
                    Thrown e (h', r\<lparr>m_instance :=
                      Some (inst\<lparr>Instance_table := table', Instance_memory := memory'\<rparr>)\<rparr>)
                | Returned memory' \<Rightarrow>
                    (let r' = r\<lparr>m_instance :=
                           Some (inst\<lparr>Instance_table := table', Instance_memory := memory'\<rparr>)\<rparr>
                     in case m_startFunction r of
                          None \<Rightarrow> Returned (h', r')
                        | Some startFunction \<Rightarrow> call startFunction (h', r')))))"

text \<open>
  Notation for the theorems on \<open>evaluate\<close>: the record with the table and the buffer that
  \<open>evaluate\<close> leaves in the instance; what \<open>evaluate\<close> does once the loop over the data
  segments has ended with \<open>c\<close> (the start function, if there is one); and what it does once the
  loop over the element segments has ended with \<open>c\<close> (the data segments, then the start
  function). They abbreviate terms and define nothing.
\<close>

abbreviation recordAfter ::
  "WebAssemblyModuleRecord \<Rightarrow> JSWebAssemblyInstance \<Rightarrow> JSWebAssemblyTable option \<Rightarrow> Wasm_Memory
     \<Rightarrow> (nat \<Rightarrow> 8 word) \<Rightarrow> WebAssemblyModuleRecord" where
  "recordAfter r inst table' m memory' \<equiv>
     r\<lparr>m_instance := Some (inst\<lparr>Instance_table := table',
          Instance_memory := Some (m\<lparr>Memory_memory := Some memory'\<rparr>)\<rparr>)\<rparr>"

abbreviation afterSegments ::
  "(nat \<Rightarrow> state \<Rightarrow> state completion) \<Rightarrow> WebAssemblyModuleRecord \<Rightarrow> JSWebAssemblyInstance \<Rightarrow> heap
     \<Rightarrow> JSWebAssemblyTable option \<Rightarrow> Wasm_Memory \<Rightarrow> (nat \<Rightarrow> 8 word) completion \<Rightarrow> state completion" where
  "afterSegments call r inst h' table' m c \<equiv>
     (case c of
        Crashed \<Rightarrow> Crashed
      | Thrown e memory' \<Rightarrow> Thrown e (h', recordAfter r inst table' m memory')
      | Returned memory' \<Rightarrow>
          (case m_startFunction r of
             None \<Rightarrow> Returned (h', recordAfter r inst table' m memory')
           | Some startFunction \<Rightarrow> call startFunction (h', recordAfter r inst table' m memory')))"

abbreviation afterElements ::
  "(nat \<Rightarrow> state \<Rightarrow> state completion) \<Rightarrow> WebAssemblyModuleRecord \<Rightarrow> JSWebAssemblyInstance
     \<Rightarrow> (heap \<times> JSWebAssemblyTable option) completion \<Rightarrow> state completion" where
  "afterElements call r inst c \<equiv>
     (case c of
        Crashed \<Rightarrow> Crashed
      | Thrown e (h', table') \<Rightarrow>
          Thrown e (h', r\<lparr>m_instance := Some (inst\<lparr>Instance_table := table'\<rparr>)\<rparr>)
      | Returned (h', table') \<Rightarrow>
          (case evaluate_data (data (moduleInformation (Instance_module inst)))
                  (Instance_memory inst) of
             Crashed \<Rightarrow> Crashed
           | Thrown e memory' \<Rightarrow>
               Thrown e (h', r\<lparr>m_instance :=
                 Some (inst\<lparr>Instance_table := table', Instance_memory := memory'\<rparr>)\<rparr>)
           | Returned memory' \<Rightarrow>
               (case m_startFunction r of
                  None \<Rightarrow> Returned (h', r\<lparr>m_instance :=
                    Some (inst\<lparr>Instance_table := table', Instance_memory := memory'\<rparr>)\<rparr>)
                | Some startFunction \<Rightarrow> call startFunction (h', r\<lparr>m_instance :=
                    Some (inst\<lparr>Instance_table := table', Instance_memory := memory'\<rparr>)\<rparr>))))"

section \<open>WebAssemblyModuleRecord::link\<close>

text \<open>
  \<open>JSModuleEnvironment::create\<close> makes one slot, holding the empty value, for every name of
  the symbol table. \<open>symbolTablePutTouchWatchpointSet\<close> stores into the slot of a name and
  reports in \<open>putResult\<close> whether the name has one. Both are declared outside the sources.
\<close>

definition JSModuleEnvironment_create :: "string list \<Rightarrow> JSModuleEnvironment" where
  "JSModuleEnvironment_create symbolTable =
     (\<lambda>name. if name \<in> set symbolTable then Some JSEmpty else None)"

definition symbolTablePutTouchWatchpointSet ::
  "JSModuleEnvironment \<Rightarrow> string \<Rightarrow> JSValue \<Rightarrow> bool \<times> JSModuleEnvironment" where
  "symbolTablePutTouchWatchpointSet env name v =
     (if env name = None then (False, env) else (True, env(name \<mapsto> v)))"

text \<open>
  The \<open>switch (exp.kind)\<close> of the export loop: the exported value, the heap and the start
  function after it, or \<open>None\<close> where a \<open>RELEASE_ASSERT\<close> fails. An index past the end of
  \<open>moduleInformation.globals\<close> is excluded by validation and is counted as a failure.
\<close>

definition link_exportedValue ::
  "JSWebAssemblyInstance \<Rightarrow> Export \<Rightarrow> heap \<times> nat option \<Rightarrow> (JSValue \<times> heap \<times> nat option) option" where
  "link_exportedValue inst entry s =
     (case s of (h, startFunction) \<Rightarrow>
        let jsModule = Instance_module inst;
            info = moduleInformation jsModule;
            hasStart = (startFunctionIndexSpace info \<noteq> None);
            startIndex = (case startFunctionIndexSpace info of None \<Rightarrow> 0 | Some i \<Rightarrow> i)
        in case Export_kind entry of
             Function \<Rightarrow>
               if Export_kindIndex entry < importCount jsModule then None
               else
                 let signature = signatureForFunctionIndexSpace jsModule (Export_kindIndex entry);
                     (func, h') = WebAssemblyFunction_create h (length (Signature_arguments signature))
                        (Export_field entry) (Instance_address inst)
                        (JSEntrypointCallee (Export_kindIndex entry))
                        (WasmEntrypointCallee (Export_kindIndex entry)) signature
                 in Some (JSFunction func, h',
                          if hasStart \<and> startIndex = Export_kindIndex entry then Some func
                          else startFunction)
           | Table \<Rightarrow>
               (case Instance_table inst of
                  None \<Rightarrow> None
                | Some t \<Rightarrow> Some (JSTable (Instance_address inst), h, startFunction))
           | Memory \<Rightarrow>
               (case Instance_memory inst of
                  None \<Rightarrow> None
                | Some m \<Rightarrow> Some (JSMemory (Instance_address inst), h, startFunction))
           | Global \<Rightarrow>
               if unat (Export_kindIndex entry) < length (globals info) then
                 (case Global_type (globals info ! unat (Export_kindIndex entry)) of
                    I32 \<Rightarrow> Some (JSInt32 (ucast (Instance_globals inst (Export_kindIndex entry))),
                                  h, startFunction)
                  | F32 \<Rightarrow> Some (JSFloat (ucast (Instance_globals inst (Export_kindIndex entry))),
                                  h, startFunction)
                  | F64 \<Rightarrow> Some (JSDouble (Instance_globals inst (Export_kindIndex entry)),
                                  h, startFunction)
                  | _ \<Rightarrow> None)
               else None)"

text \<open>One iteration of the export loop: the switch, then the store into the environment.\<close>

definition link_export ::
  "JSWebAssemblyInstance \<Rightarrow> Export \<Rightarrow> heap \<times> nat option \<times> JSModuleEnvironment
     \<Rightarrow> (heap \<times> nat option \<times> JSModuleEnvironment) completion" where
  "link_export inst entry s =
     (case s of (h, startFunction, env) \<Rightarrow>
        (case link_exportedValue inst entry (h, startFunction) of
           None \<Rightarrow> Crashed
         | Some (exportedValue, h', startFunction') \<Rightarrow>
             (case symbolTablePutTouchWatchpointSet env (Export_field entry) exportedValue of
                (putResult, env') \<Rightarrow>
                  if putResult then Returned (h', startFunction', env') else Crashed)))"

fun link_exports ::
  "JSWebAssemblyInstance \<Rightarrow> Export list \<Rightarrow> heap \<times> nat option \<times> JSModuleEnvironment
     \<Rightarrow> (heap \<times> nat option \<times> JSModuleEnvironment) completion" where
  "link_exports inst [] s = Returned s"
| "link_exports inst (entry # rest) s =
     (case link_export inst entry s of
        Returned s' \<Rightarrow> link_exports inst rest s'
      | Thrown e s' \<Rightarrow> Thrown e s'
      | Crashed \<Rightarrow> Crashed)"

text \<open>
  After the loop the start function is created if the module has one and no export made it;
  only then comes \<open>RELEASE_ASSERT(!m_instance)\<close>, and the record is bound to the instance.
  \<open>link\<close> throws nothing (its throw scope is unused), and the export loop never ends in
  \<open>Thrown\<close>; that case of the result type is mapped to \<open>Crashed\<close> and never taken.
\<close>

definition link :: "heap \<Rightarrow> WebAssemblyModuleRecord \<Rightarrow> JSWebAssemblyInstance \<Rightarrow> state completion" where
  "link h r inst =
     (let jsModule = Instance_module inst;
          info = moduleInformation jsModule;
          moduleEnvironment = JSModuleEnvironment_create (exportSymbolTable jsModule)
      in case link_exports inst (exports info) (h, m_startFunction r, moduleEnvironment) of
           Crashed \<Rightarrow> Crashed
         | Thrown e (h', startFunction, env) \<Rightarrow> Crashed
         | Returned (h', startFunction, env) \<Rightarrow>
             (let (h'', startFunction') =
                    (case startFunctionIndexSpace info of
                       None \<Rightarrow> (h', startFunction)
                     | Some startIndex \<Rightarrow>
                         (case startFunction of
                            Some f \<Rightarrow> (h', startFunction)
                          | None \<Rightarrow>
                              let signature = signatureForFunctionIndexSpace jsModule startIndex;
                                  (func, h2) = WebAssemblyFunction_create h'
                                     (length (Signature_arguments signature)) ''start''
                                     (Instance_address inst) (JSEntrypointCallee startIndex)
                                     (WasmEntrypointCallee startIndex) signature
                              in (h2, Some func)))
              in if m_instance r \<noteq> None then Crashed
                 else Returned (h'', r\<lparr>m_instance := Some inst, m_startFunction := startFunction',
                                        m_moduleEnvironment := Some env\<rparr>)))"

section \<open>ExecutableAllocator.cpp\<close>

text \<open>
  \<open>size_t\<close> is 64 bits wide and its arithmetic wraps. The constants \<open>pageSize()\<close> and
  \<open>JIT_ALLOCATOR_LARGE_ALLOC_SIZE\<close> come from headers outside the sources, and
  \<open>EXECUTABLE_MEMORY_LIMIT\<close> is a macro that the file leaves commented out: \<open>None\<close> is the
  build without the macro, \<open>Some limit\<close> the build with it.
\<close>

record Config =
  pageSize :: "64 word"
  JIT_ALLOCATOR_LARGE_ALLOC_SIZE :: "64 word"
  EXECUTABLE_MEMORY_LIMIT :: "64 word option"

datatype JITCompilationEffort = JITCompilationCanFail | JITCompilationMustSucceed

text \<open>A reservation is a base address and a length; a failed reservation has a null base.\<close>

record PageReservation =
  Reservation_base :: "64 word"
  Reservation_size :: "64 word"

record ExecutableMemoryHandle =
  Handle_start :: "64 word"
  Handle_sizeInBytes :: "64 word"
  Handle_ownerUID :: nat

text \<open>
  A \<open>DemandExecutableAllocator\<close>: the counters of its base class \<open>MetaAllocator\<close>, the free
  ranges (start and length) of that base class, and its own list of reservations.
\<close>

record DemandExecutableAllocator =
  bytesAllocated :: "64 word"
  bytesCommitted :: "64 word"
  freeSpace :: "(64 word \<times> 64 word) list"
  reservations :: "PageReservation list"

text \<open>
  The process: the registry \<open>allocators()\<close> of the live allocators (a pointer to one is its
  position) and the state of the operating system's address space, of which the model knows
  nothing but what \<open>PageReservation::reserve\<close>, a parameter, makes of it.
\<close>

record 'os process =
  allocators :: "DemandExecutableAllocator list"
  os :: 'os

type_synonym 'os reserve = "'os \<Rightarrow> 64 word \<Rightarrow> PageReservation \<times> 'os"

definition bytesAllocatedByAllAllocators :: "'os process \<Rightarrow> 64 word" where
  "bytesAllocatedByAllAllocators st = foldl (\<lambda>total a. total + bytesAllocated a) 0 (allocators st)"

definition bytesCommittedByAllocactors :: "'os process \<Rightarrow> 64 word" where
  "bytesCommittedByAllocactors st = foldl (\<lambda>total a. total + bytesCommitted a) 0 (allocators st)"

text \<open>
  \<open>allocateNewSpace(size_t& numPages)\<close> returns the base pointer (0 is null), the new value
  of \<open>numPages\<close> and the state. \<open>newNumPages\<close> is its first local variable: the request
  rounded up to whole large chunks, in pages.
\<close>

definition newNumPages :: "Config \<Rightarrow> 64 word \<Rightarrow> 64 word" where
  "newNumPages cfg numPages =
     (((numPages * pageSize cfg + JIT_ALLOCATOR_LARGE_ALLOC_SIZE cfg - 1)
         div JIT_ALLOCATOR_LARGE_ALLOC_SIZE cfg * JIT_ALLOCATOR_LARGE_ALLOC_SIZE cfg)
       + pageSize cfg - 1) div pageSize cfg"

definition allocateNewSpace ::
  "Config \<Rightarrow> 'os reserve \<Rightarrow> nat \<Rightarrow> 'os process \<Rightarrow> 64 word
     \<Rightarrow> (64 word \<times> 64 word \<times> 'os process) completion" where
  "allocateNewSpace cfg reserve self st numPages =
     (if (case EXECUTABLE_MEMORY_LIMIT cfg of
            Some limit \<Rightarrow> bytesAllocatedByAllAllocators st \<ge> limit
          | None \<Rightarrow> False)
      then Returned (0, newNumPages cfg numPages, st)
      else
        (case reserve (os st) (newNumPages cfg numPages * pageSize cfg) of
           (reservation, os') \<Rightarrow>
             if Reservation_base reservation = 0 then Crashed
             else
               let a = allocators st ! self
               in Returned (Reservation_base reservation, newNumPages cfg numPages,
                    st\<lparr>allocators := (allocators st)
                          [self := a\<lparr>reservations := reservations a @ [reservation]\<rparr>],
                       os := os'\<rparr>)))"

definition underMemoryPressure :: "Config \<Rightarrow> 'os process \<Rightarrow> bool" where
  "underMemoryPressure cfg st =
     (case EXECUTABLE_MEMORY_LIMIT cfg of
        Some limit \<Rightarrow> bytesAllocatedByAllAllocators st > limit div 2
      | None \<Rightarrow> False)"

text \<open>
  The \<open>double\<close> values that \<open>memoryPressureMultiplier\<close> can produce: a non-negative number,
  plus infinity (a positive number divided by zero) and NaN (zero divided by zero). A
  comparison with NaN is false. The result of a conversion or of a division is the exact
  value rounded to a \<open>double\<close>; the rounding function is the parameter \<open>rnd\<close>, of which the
  theorems below assume only what rounding to nearest guarantees: it keeps the order and
  leaves 0 and 1 as they are.
\<close>

datatype double = Finite rat | Infinity | NaN

definition double_of_size_t :: "(rat \<Rightarrow> rat) \<Rightarrow> 64 word \<Rightarrow> double" where
  "double_of_size_t rnd n = Finite (rnd (of_nat (unat n)))"

fun double_div :: "(rat \<Rightarrow> rat) \<Rightarrow> double \<Rightarrow> double \<Rightarrow> double" where
  "double_div rnd (Finite a) (Finite b) =
     (if b = 0 then (if a = 0 then NaN else Infinity) else Finite (rnd (a / b)))"
| "double_div rnd (Finite a) Infinity = Finite 0"
| "double_div rnd Infinity (Finite b) = Infinity"
| "double_div rnd Infinity Infinity = NaN"
| "double_div rnd NaN y = NaN"
| "double_div rnd x NaN = NaN"

fun double_less :: "double \<Rightarrow> double \<Rightarrow> bool" where
  "double_less (Finite a) (Finite b) = (a < b)"
| "double_less (Finite a) Infinity = True"
| "double_less Infinity y = False"
| "double_less NaN y = False"
| "double_less x NaN = False"

fun double_less_eq :: "double \<Rightarrow> double \<Rightarrow> bool" where
  "double_less_eq (Finite a) (Finite b) = (a \<le> b)"
| "double_less_eq (Finite a) Infinity = True"
| "double_less_eq Infinity Infinity = True"
| "double_less_eq Infinity (Finite b) = False"
| "double_less_eq NaN y = False"
| "double_less_eq x NaN = False"

definition memoryPressureMultiplier ::
  "(rat \<Rightarrow> rat) \<Rightarrow> Config \<Rightarrow> 'os process \<Rightarrow> 64 word \<Rightarrow> double" where
  "memoryPressureMultiplier rnd cfg st addedMemoryUsage =
     (let result =
            (case EXECUTABLE_MEMORY_LIMIT cfg of
               Some limit \<Rightarrow>
                 let sum = bytesAllocatedByAllAllocators st + addedMemoryUsage;
                     clamped = (if sum \<ge> limit then limit else sum)
                 in double_div rnd (double_of_size_t rnd limit) (double_of_size_t rnd (limit - clamped))
             | None \<Rightarrow> Finite 1)
      in if double_less result (Finite 1) then Finite 1 else result)"

text \<open>
  What \<open>memoryPressureMultiplier\<close> returns when the limit is \<open>limit\<close> and \<open>free\<close> bytes are
  left below it; the lemmas on the multiplier go through this function.
\<close>

definition multiplierFor :: "(rat \<Rightarrow> rat) \<Rightarrow> nat \<Rightarrow> nat \<Rightarrow> double" where
  "multiplierFor rnd limit free =
     (let result = double_div rnd (Finite (rnd (of_nat limit))) (Finite (rnd (of_nat free)))
      in if double_less result (Finite 1) then Finite 1 else result)"

text \<open>
  \<open>ExecutableAllocator::allocate\<close>. The call \<open>allocator()->allocate(sizeInBytes, ownerUID)\<close>
  goes to the base class, whose code is outside the sources: it is the parameter
  \<open>metaAllocate\<close>, which returns a handle or null and the new state, or aborts.
\<close>

definition ExecutableAllocator_allocate ::
  "('s \<Rightarrow> 64 word \<Rightarrow> nat \<Rightarrow> (ExecutableMemoryHandle option \<times> 's) completion)
     \<Rightarrow> 's \<Rightarrow> 64 word \<Rightarrow> nat \<Rightarrow> JITCompilationEffort
     \<Rightarrow> (ExecutableMemoryHandle option \<times> 's) completion" where
  "ExecutableAllocator_allocate metaAllocate st sizeInBytes ownerUID effort =
     (case metaAllocate st sizeInBytes ownerUID of
        Returned (result, st') \<Rightarrow>
          if result \<noteq> None \<or> effort \<noteq> JITCompilationMustSucceed then Returned (result, st')
          else Crashed
      | Thrown e s \<Rightarrow> Thrown e s
      | Crashed \<Rightarrow> Crashed)"

definition committedByteCount :: "'os process \<Rightarrow> 64 word" where
  "committedByteCount st = bytesCommittedByAllocactors st"

subsection \<open>The base class's allocate\<close>

text \<open>
  Modelled from the spec: \<open>MetaAllocator::allocate\<close>, the allocation routine of the base class
  (\<open>wtf/MetaAllocator.cpp\<close> is not among the sources). The specification, section 4.2:
  \<open>allocate(size, ownerTag)\<close> returns a handle or null; "when the free-list cannot satisfy a
  request", the allocator grows by a reservation rounded to the large-chunk size and extends
  "the free-list with the new chunk"; on success the handle's "bytes count toward
  bytesAllocated"; when growth fails it "returns null". A request is satisfied from the first
  free range that is large enough. The accounting of committed pages is left out.
  \<open>allocateNewSpace\<close> throws nothing, so its \<open>Thrown\<close> case is never taken.
\<close>

fun findAndRemoveFreeSpace ::
  "(64 word \<times> 64 word) list \<Rightarrow> 64 word \<Rightarrow> (64 word \<times> (64 word \<times> 64 word) list) option" where
  "findAndRemoveFreeSpace [] sizeInBytes = None"
| "findAndRemoveFreeSpace ((start, len) # rest) sizeInBytes =
     (if sizeInBytes \<le> len
      then Some (start, if len = sizeInBytes then rest else (start + sizeInBytes, len - sizeInBytes) # rest)
      else
        (case findAndRemoveFreeSpace rest sizeInBytes of
           None \<Rightarrow> None
         | Some (p, rest') \<Rightarrow> Some (p, (start, len) # rest')))"

definition MetaAllocator_allocate ::
  "Config \<Rightarrow> 'os reserve \<Rightarrow> nat \<Rightarrow> 'os process \<Rightarrow> 64 word \<Rightarrow> nat
     \<Rightarrow> (ExecutableMemoryHandle option \<times> 'os process) completion" where
  "MetaAllocator_allocate cfg reserve self st sizeInBytes ownerUID =
     (let a = allocators st ! self
      in case findAndRemoveFreeSpace (freeSpace a) sizeInBytes of
           Some (start, free') \<Rightarrow>
             Returned
               (Some \<lparr>Handle_start = start, Handle_sizeInBytes = sizeInBytes, Handle_ownerUID = ownerUID\<rparr>,
                st\<lparr>allocators := (allocators st)
                     [self := a\<lparr>bytesAllocated := bytesAllocated a + sizeInBytes, freeSpace := free'\<rparr>]\<rparr>)
         | None \<Rightarrow>
             (case allocateNewSpace cfg reserve self st
                     ((sizeInBytes + pageSize cfg - 1) div pageSize cfg) of
                Crashed \<Rightarrow> Crashed
              | Thrown e s \<Rightarrow> Crashed
              | Returned (start, numPages, st') \<Rightarrow>
                  if start = 0 then Returned (None, st')
                  else
                    let a' = allocators st' ! self;
                        chunk = numPages * pageSize cfg;
                        rest = (if sizeInBytes < chunk
                                then [(start + sizeInBytes, chunk - sizeInBytes)] else [])
                    in Returned
                         (Some \<lparr>Handle_start = start, Handle_sizeInBytes = sizeInBytes,
                                 Handle_ownerUID = ownerUID\<rparr>,
                          st'\<lparr>allocators := (allocators st')
                                [self := a'\<lparr>bytesAllocated := bytesAllocated a' + sizeInBytes,
                                           freeSpace := rest @ freeSpace a'\<rparr>]\<rparr>)))"

section \<open>Observations and test inputs\<close>

text \<open>
  What a caller can see after a call: the value stored under an export name, the content of a
  table slot, a byte of linear memory. After a throw they show the state the exception left.
\<close>

definition stateOf :: "state completion \<Rightarrow> state option" where
  "stateOf c = (case c of Returned s \<Rightarrow> Some s | Thrown e s \<Rightarrow> Some s | Crashed \<Rightarrow> None)"

definition exportedValueOf :: "state completion \<Rightarrow> string \<Rightarrow> JSValue option" where
  "exportedValueOf c name =
     (case stateOf c of
        Some (h, r) \<Rightarrow> (case m_moduleEnvironment r of Some env \<Rightarrow> env name | None \<Rightarrow> None)
      | None \<Rightarrow> None)"

definition tableSlotOf :: "state completion \<Rightarrow> 32 word \<Rightarrow> nat option" where
  "tableSlotOf c index =
     (case stateOf c of
        Some (h, r) \<Rightarrow>
          (case m_instance r of
             Some inst \<Rightarrow>
               (case Instance_table inst of Some t \<Rightarrow> Table_functions t index | None \<Rightarrow> None)
           | None \<Rightarrow> None)
      | None \<Rightarrow> None)"

definition memoryByteOf :: "state completion \<Rightarrow> nat \<Rightarrow> 8 word option" where
  "memoryByteOf c a =
     (case stateOf c of
        Some (h, r) \<Rightarrow>
          (case m_instance r of
             Some inst \<Rightarrow>
               (case Instance_memory inst of
                  Some m \<Rightarrow> (case Memory_memory m of Some memory \<Rightarrow> Some (memory a) | None \<Rightarrow> None)
                | None \<Rightarrow> None)
           | None \<Rightarrow> None)
      | None \<Rightarrow> None)"

definition cellOf :: "state completion \<Rightarrow> nat \<Rightarrow> WebAssemblyFunction option" where
  "cellOf c p =
     (case stateOf c of
        Some (h, r) \<Rightarrow> (if p < length h then Some (h ! p) else None)
      | None \<Rightarrow> None)"

text \<open>The embedder links a fresh record and then evaluates it.\<close>

definition link_then_evaluate ::
  "(nat \<Rightarrow> state \<Rightarrow> state completion) \<Rightarrow> heap \<Rightarrow> WebAssemblyModuleRecord \<Rightarrow> JSWebAssemblyInstance
     \<Rightarrow> state completion" where
  "link_then_evaluate call h r inst =
     (case link h r inst of
        Returned (h', r') \<Rightarrow> evaluate call h' r'
      | Thrown e s \<Rightarrow> Thrown e s
      | Crashed \<Rightarrow> Crashed)"

definition unlinked :: WebAssemblyModuleRecord where
  "unlinked = \<lparr>m_instance = None, m_startFunction = None, m_moduleEnvironment = None\<rparr>"

definition linked :: "JSWebAssemblyInstance \<Rightarrow> WebAssemblyModuleRecord" where
  "linked inst = \<lparr>m_instance = Some inst, m_startFunction = None,
                   m_moduleEnvironment = Some (JSModuleEnvironment_create [])\<rparr>"

definition startReturns :: "nat \<Rightarrow> state \<Rightarrow> state completion" where
  "startReturns f s = Returned s"

definition noArguments :: "32 word \<Rightarrow> Signature" where
  "noArguments i = \<lparr>Signature_arguments = [], Signature_returnType = Void\<rparr>"

definition testModule ::
  "32 word \<Rightarrow> Export list \<Rightarrow> Element list \<Rightarrow> Segment list \<Rightarrow> JSWebAssemblyModule" where
  "testModule imports exps elems segs =
     \<lparr>moduleInformation =
        \<lparr>exports = exps, startFunctionIndexSpace = None, globals = [], elements = elems, data = segs\<rparr>,
      importCount = imports,
      exportSymbolTable = map Export_field exps,
      signatureForFunctionIndexSpace = noArguments\<rparr>"

definition emptyTable :: "32 word \<Rightarrow> JSWebAssemblyTable" where
  "emptyTable n = \<lparr>Table_size = n, Table_functions = (\<lambda>i. None)\<rparr>"

definition zeroMemory :: "32 word \<Rightarrow> Wasm_Memory" where
  "zeroMemory n = \<lparr>Memory_memory = Some (\<lambda>a. 0), Memory_size = n\<rparr>"

definition testInstance :: "JSWebAssemblyModule \<Rightarrow> 32 word \<Rightarrow> 32 word \<Rightarrow> JSWebAssemblyInstance" where
  "testInstance jsModule tableSize memorySize =
     \<lparr>Instance_address = 0, Instance_module = jsModule,
      Instance_table = Some (emptyTable tableSize),
      Instance_memory = Some (zeroMemory memorySize),
      Instance_globals = (\<lambda>i. 0)\<rparr>"

definition testSegment :: "32 word \<Rightarrow> 32 word \<Rightarrow> Segment" where
  "testSegment offset n =
     \<lparr>Segment_offset = offset, Segment_sizeInBytes = n, Segment_byte = (\<lambda>i. of_nat i + 1)\<rparr>"

definition testElement :: "32 word \<Rightarrow> 32 word list \<Rightarrow> Element" where
  "testElement offset fis = \<lparr>Element_offset = offset, Element_functionIndices = fis\<rparr>"

definition functionExport :: "string \<Rightarrow> 32 word \<Rightarrow> Export" where
  "functionExport name i = \<lparr>Export_field = name, Export_kind = Function, Export_kindIndex = i\<rparr>"

text \<open>
  Instances used below: one whose second data segment is out of bounds after an element
  segment and a first data segment that are in bounds; one that exports function 0 under two
  names and also puts it into the table; one that exports an imported function; instances
  with two data segments, with an empty data segment between two others, with two element
  segments, and with an element segment that names an imported function after one that does
  not; and the cell that \<open>evaluate\<close> creates for a table slot.
\<close>

definition notAtomicInstance :: JSWebAssemblyInstance where
  "notAtomicInstance =
     testInstance (testModule 0 [] [testElement 0 [0]] [testSegment 0 2, testSegment 10 10]) 2 16"

definition twoExportsInstance :: JSWebAssemblyInstance where
  "twoExportsInstance =
     testInstance (testModule 0 [functionExport ''f'' 0, functionExport ''g'' 0]
                     [testElement 0 [0]] []) 1 0"

definition reexportInstance :: JSWebAssemblyInstance where
  "reexportInstance = testInstance (testModule 1 [functionExport ''f'' 0] [] []) 0 0"


definition emptySegmentInstance :: JSWebAssemblyInstance where
  "emptySegmentInstance =
     testInstance (testModule 0 [] [] [testSegment 0 2, testSegment 1100 0, testSegment 3 1]) 0 100"

definition elementsInstance :: "32 word \<Rightarrow> JSWebAssemblyInstance" where
  "elementsInstance tableSize =
     testInstance (testModule 0 [] [testElement 2 [0], testElement 5 [0, 1, 2]] []) tableSize 0"

definition importElementsInstance :: JSWebAssemblyInstance where
  "importElementsInstance =
     testInstance (testModule 1 [] [testElement 0 [1], testElement 1 [1, 0]] []) 3 0"

definition testCell :: "32 word \<Rightarrow> WebAssemblyFunction" where
  "testCell functionIndex =
     \<lparr>Function_length = 0, Function_name = [], Function_instance = 0,
      Function_jsEntrypoint = JSEntrypointCallee functionIndex,
      Function_wasmEntrypoint = WasmEntrypointCallee functionIndex,
      Function_signature = noArguments functionIndex\<rparr>"

text \<open>
  Test inputs for the allocator: pages of 4096 bytes, chunks of 16 pages, an operating system
  that hands out consecutive ranges, a process with one allocator that has allocated \<open>n\<close>
  bytes and has no free space, and the rounding of values that a \<open>double\<close> represents
  exactly.
\<close>

definition testConfig :: "64 word option \<Rightarrow> Config" where
  "testConfig limit =
     \<lparr>pageSize = 4096, JIT_ALLOCATOR_LARGE_ALLOC_SIZE = 65536, EXECUTABLE_MEMORY_LIMIT = limit\<rparr>"

definition testReserve :: "64 word reserve" where
  "testReserve next bytes = (\<lparr>Reservation_base = next, Reservation_size = bytes\<rparr>, next + bytes)"

definition testAllocator :: "64 word \<Rightarrow> DemandExecutableAllocator" where
  "testAllocator n = \<lparr>bytesAllocated = n, bytesCommitted = 0, freeSpace = [], reservations = []\<rparr>"

definition testProcess :: "64 word \<Rightarrow> 64 word process" where
  "testProcess n = \<lparr>allocators = [testAllocator n], os = 1048576\<rparr>"

definition exact :: "rat \<Rightarrow> rat" where
  "exact x = x"

definition handleOf :: "(ExecutableMemoryHandle option \<times> 's) completion \<Rightarrow> ExecutableMemoryHandle option" where
  "handleOf c = (case c of Returned (result, st) \<Rightarrow> result | Thrown e s \<Rightarrow> None | Crashed \<Rightarrow> None)"

definition processOf :: "(ExecutableMemoryHandle option \<times> 's) completion \<Rightarrow> 's \<Rightarrow> 's" where
  "processOf c st = (case c of Returned (result, st') \<Rightarrow> st' | Thrown e s \<Rightarrow> st | Crashed \<Rightarrow> st)"


section \<open>Properties of evaluate: linear memory\<close>

lemma memcpy_apply:
  "memcpy dst d src n a = (if d \<le> a \<and> a < d + n then src (a - d) else dst a)"
  by (simp add: memcpy_def)

lemma evaluate_segment_nat:
  assumes "Segment_sizeInBytes segment \<noteq> 0"
  shows "evaluate_segment sizeInBytes segment memory =
     (if unat sizeInBytes < unat (Segment_sizeInBytes segment)
      then Thrown (dataSegmentFail sizeInBytes (Segment_sizeInBytes segment) (Segment_offset segment)
                     '', segment is too big'') memory
      else if unat sizeInBytes < unat (Segment_offset segment) + unat (Segment_sizeInBytes segment)
      then Thrown (dataSegmentFail sizeInBytes (Segment_sizeInBytes segment) (Segment_offset segment)
                     '', segment writes outside of memory'') memory
      else Returned (memcpy memory (unat (Segment_offset segment)) (Segment_byte segment)
                       (unat (Segment_sizeInBytes segment))))"
proof (cases "sizeInBytes < Segment_sizeInBytes segment")
  case True
  then show ?thesis using assms by (simp add: evaluate_segment_def word_less_nat_alt)
next
  case False
  then have le: "Segment_sizeInBytes segment \<le> sizeInBytes" by simp
  then have sub: "unat (sizeInBytes - Segment_sizeInBytes segment)
      = unat sizeInBytes - unat (Segment_sizeInBytes segment)"
    by (simp add: unat_sub)
  have le': "unat (Segment_sizeInBytes segment) \<le> unat sizeInBytes"
    using le by (simp add: word_le_nat_alt)
  show ?thesis using assms False le' sub
    by (auto simp add: evaluate_segment_def word_less_nat_alt)
qed

lemma evaluate_segment_Thrown_memory:
  "evaluate_segment n segment memory = Thrown e memory' \<Longrightarrow> memory' = memory"
  by (auto simp add: evaluate_segment_def split: if_splits)

lemma evaluate_segment_Returned_in_bounds:
  assumes "evaluate_segment n segment memory = Returned memory'"
    and "Segment_sizeInBytes segment \<noteq> 0"
  shows "unat (Segment_offset segment) + unat (Segment_sizeInBytes segment) \<le> unat n"
  using assms(1) unfolding evaluate_segment_nat [OF assms(2)]
  by (simp split: if_splits)

lemma evaluate_segments_append:
  "evaluate_segments n (xs @ ys) memory =
     (case evaluate_segments n xs memory of
        Returned memory' \<Rightarrow> evaluate_segments n ys memory'
      | Thrown e memory' \<Rightarrow> Thrown e memory'
      | Crashed \<Rightarrow> Crashed)"
  by (induction xs arbitrary: memory) (auto split: completion.splits)

section \<open>Properties of evaluate: the table\<close>

lemma evaluate_functionIndices_Thrown:
  "evaluate_functionIndices jsModule inst fis tableIndex s = Thrown e s' \<Longrightarrow> e = elementImport"
  by (induction jsModule inst fis tableIndex s rule: evaluate_functionIndices.induct)
     (auto simp add: Let_def split: if_splits prod.splits)

lemma evaluate_functionIndices_not_Crashed:
  "evaluate_functionIndices jsModule inst fis tableIndex s \<noteq> Crashed"
  by (induction jsModule inst fis tableIndex s rule: evaluate_functionIndices.induct)
     (auto simp add: Let_def split: if_splits prod.splits)

lemma evaluate_functionIndices_Returned:
  "(\<exists>s'. evaluate_functionIndices jsModule inst fis tableIndex s = Returned s')
     = list_all (\<lambda>i. importCount jsModule \<le> i) fis"
  by (induction jsModule inst fis tableIndex s rule: evaluate_functionIndices.induct)
     (auto simp add: Let_def split: if_splits prod.splits)

lemma elementImport_neq: "elementImport \<noteq> elementOutOfBounds"
  by (simp add: elementImport_def elementOutOfBounds_def)

lemma unat_ucast_32_64: "unat (ucast (w :: 32 word) :: 64 word) = unat w"
proof -
  have "unat w < 2 ^ 32" using unsigned_less [of w, where ?'a = nat] by simp
  then have "unat w < 2 ^ 64" by simp
  then show ?thesis
    by (simp add: unsigned_ucast_eq take_bit_nat_eq_self)
qed

lemma unat_lastWrittenIndex:
  assumes "Element_functionIndices element \<noteq> []"
    and "length (Element_functionIndices element) < 2 ^ 32"
  shows "unat (lastWrittenIndex element)
           = unat (Element_offset element) + length (Element_functionIndices element) - 1"
proof -
  let ?n = "length (Element_functionIndices element)"
  let ?o = "unat (Element_offset element)"
  have pos: "0 < ?n" using assms(1) by simp
  have off: "?o < 2 ^ 32"
    using unsigned_less [of "Element_offset element", where ?'a = nat] by simp
  obtain k where k: "?n = Suc k"
    using pos by (cases ?n) auto
  have kb: "k < 2 ^ 64" using assms(2) k by simp
  have sum: "?o + k < 2 ^ 64" using off assms(2) k by simp
  have "lastWrittenIndex element = ucast (Element_offset element) + of_nat k"
    by (simp add: lastWrittenIndex_def k)
  then have "unat (lastWrittenIndex element)
      = (unat (ucast (Element_offset element) :: 64 word) + unat (of_nat k :: 64 word)) mod 2 ^ 64"
    by (simp only: unat_word_ariths) simp
  also have "\<dots> = (?o + k) mod 2 ^ 64"
    using kb by (simp only: unat_ucast_32_64 unat_of_nat) simp
  also have "\<dots> = ?o + k"
    using sum by simp
  finally show ?thesis by (simp add: k)
qed


section \<open>Evaluating the model on test inputs\<close>

lemmas test_defs = testModule_def testInstance_def testSegment_def testElement_def functionExport_def
  emptyTable_def zeroMemory_def noArguments_def unlinked_def linked_def startReturns_def

lemmas model_defs = evaluate_def evaluate_data_def evaluate_segment_def evaluate_element_def
  lastWrittenIndex_def link_def link_export_def link_exportedValue_def
  symbolTablePutTouchWatchpointSet_def JSModuleEnvironment_create_def WebAssemblyFunction_create_def
  setFunction_def Let_def

lemmas obs_defs = stateOf_def exportedValueOf_def tableSlotOf_def memoryByteOf_def cellOf_def
  link_then_evaluate_def

section \<open>Data segments\<close>

text \<open>
  One iteration of the loop over the data segments, with the sizes read as natural numbers. The
  32-bit subtraction of the source cannot wrap, because the first check has passed.
\<close>

lemma evaluate_segment_bounds:
  assumes "Segment_sizeInBytes segment \<noteq> 0"
  shows "evaluate_segment sizeInBytes segment memory =
     (if unat sizeInBytes < unat (Segment_sizeInBytes segment)
      then Thrown (dataSegmentFail sizeInBytes (Segment_sizeInBytes segment) (Segment_offset segment)
                     '', segment is too big'') memory
      else if unat (Segment_offset segment) > unat sizeInBytes - unat (Segment_sizeInBytes segment)
      then Thrown (dataSegmentFail sizeInBytes (Segment_sizeInBytes segment) (Segment_offset segment)
                     '', segment writes outside of memory'') memory
      else Returned (\<lambda>a. if unat (Segment_offset segment) \<le> a
                            \<and> a < unat (Segment_offset segment) + unat (Segment_sizeInBytes segment)
                          then Segment_byte segment (a - unat (Segment_offset segment))
                          else memory a))"
  unfolding evaluate_segment_nat [OF assms] memcpy_def by auto

lemma evaluate_segment_examples:
  "evaluate_segment 12 (testSegment 5 10) (\<lambda>a. 0)
     = Thrown (dataSegmentFail 12 10 5 '', segment writes outside of memory'') (\<lambda>a. 0)
   \<and> evaluate_segment 20 (testSegment 5 10) (\<lambda>a. 0)
     = Returned (\<lambda>a. if 5 \<le> a \<and> a < 15 then of_nat (a - 5) + 1 else 0)
   \<and> evaluate_segment 9 (testSegment 5 10) (\<lambda>a. 0)
     = Thrown (dataSegmentFail 9 10 5 '', segment is too big'') (\<lambda>a. 0)"
  using evaluate_segment_bounds [of "testSegment 5 10" 12 "\<lambda>a. 0"]
    evaluate_segment_bounds [of "testSegment 5 10" 20 "\<lambda>a. 0"]
    evaluate_segment_bounds [of "testSegment 5 10" 9 "\<lambda>a. 0"]
  by (simp add: testSegment_def cong: if_cong)

text \<open>
  The example of the specification on the whole of \<open>evaluate\<close>: ten bytes at offset 5 into a
  memory of 12 bytes, and into one of 20 bytes.
\<close>

lemma evaluate_data_segment_memory_12:
  "evaluate startReturns [] (linked (testInstance (testModule 0 [] [] [testSegment 5 10]) 0 12))
     = Thrown (dataSegmentFail 12 10 5 '', segment writes outside of memory'')
         ([], linked (testInstance (testModule 0 [] [] [testSegment 5 10]) 0 12))"
  by (simp add: model_defs test_defs)

lemma evaluate_data_segment_memory_20:
  "memoryByteOf (evaluate startReturns [] (linked (testInstance (testModule 0 [] [] [testSegment 5 10]) 0 20))) 4 = Some 0
 \<and> memoryByteOf (evaluate startReturns [] (linked (testInstance (testModule 0 [] [] [testSegment 5 10]) 0 20))) 5 = Some 1
 \<and> memoryByteOf (evaluate startReturns [] (linked (testInstance (testModule 0 [] [] [testSegment 5 10]) 0 20))) 14 = Some 10
 \<and> memoryByteOf (evaluate startReturns [] (linked (testInstance (testModule 0 [] [] [testSegment 5 10]) 0 20))) 15 = Some 0"
  by (simp add: model_defs test_defs obs_defs memcpy_def)

lemma evaluate_segment_empty:
  assumes "Segment_sizeInBytes segment = 0"
  shows "evaluate_segment sizeInBytes segment memory = Returned memory"
  using assms by (simp add: evaluate_segment_def)

section \<open>Element segments\<close>

lemma evaluate_element_cases:
  assumes "Element_functionIndices element \<noteq> []"
  shows "evaluate_element jsModule inst element (h, Some t) =
     (if lastWrittenIndex element \<ge> ucast (Table_size t) then Thrown elementOutOfBounds (h, Some t)
      else case evaluate_functionIndices jsModule inst (Element_functionIndices element)
                  (Element_offset element) (h, t) of
             Returned (h', t') \<Rightarrow> Returned (h', Some t')
           | Thrown e (h', t') \<Rightarrow> Thrown e (h', Some t')
           | Crashed \<Rightarrow> Crashed)"
  using assms by (simp add: evaluate_element_def)

text \<open>
  The example of the specification on the whole of \<open>evaluate\<close>: offset 5 and three function
  indices against a table of 7 slots, and against one of 8 slots.
\<close>

lemma evaluate_element_table_7:
  "evaluate startReturns []
     (linked (testInstance (testModule 0 [] [testElement 5 [0, 1, 2]] []) 7 0))
   = Thrown elementOutOfBounds
       ([], linked (testInstance (testModule 0 [] [testElement 5 [0, 1, 2]] []) 7 0))"
  by (simp add: model_defs test_defs)

lemma evaluate_element_table_8:
  "tableSlotOf (evaluate startReturns []
     (linked (testInstance (testModule 0 [] [testElement 5 [0, 1, 2]] []) 8 0))) 4 = None
 \<and> tableSlotOf (evaluate startReturns []
     (linked (testInstance (testModule 0 [] [testElement 5 [0, 1, 2]] []) 8 0))) 5 = Some 0
 \<and> tableSlotOf (evaluate startReturns []
     (linked (testInstance (testModule 0 [] [testElement 5 [0, 1, 2]] []) 8 0))) 6 = Some 1
 \<and> tableSlotOf (evaluate startReturns []
     (linked (testInstance (testModule 0 [] [testElement 5 [0, 1, 2]] []) 8 0))) 7 = Some 2
 \<and> (\<exists>s. evaluate startReturns []
     (linked (testInstance (testModule 0 [] [testElement 5 [0, 1, 2]] []) 8 0)) = Returned s)"
  by (simp add: model_defs test_defs obs_defs)


section \<open>Evaluation is not atomic\<close>

text \<open>
  C10. When the table population has returned and a data segment fails its bounds check
  after earlier data segments were copied, \<open>evaluate\<close> throws that segment's RangeError and
  the state it leaves holds the table as the element segments filled it and the memory as the
  earlier data segments wrote it: nothing is rolled back.
\<close>

theorem evaluate_not_atomic:
  assumes "m_instance r = Some inst"
    and "evaluate_elements (Instance_module inst) (Instance_address inst)
           (elements (moduleInformation (Instance_module inst))) (h, Instance_table inst)
         = Returned (h', table')"
    and "Instance_memory inst = Some m"
    and "Memory_memory m = Some memory"
    and "data (moduleInformation (Instance_module inst)) = earlier @ failing # later"
    and "evaluate_segments (Memory_size m) earlier memory = Returned memory'"
    and "evaluate_segment (Memory_size m) failing memory' = Thrown e x"
  shows "evaluate call h r =
           Thrown e (h', r\<lparr>m_instance := Some (inst\<lparr>Instance_table := table',
              Instance_memory := Some (m\<lparr>Memory_memory := Some memory'\<rparr>)\<rparr>)\<rparr>)"
proof -
  have x: "x = memory'"
    using assms(7) by (rule evaluate_segment_Thrown_memory)
  have "evaluate_segments (Memory_size m) (earlier @ failing # later) memory = Thrown e memory'"
    using assms(6,7) x by (simp add: evaluate_segments_append)
  then have "evaluate_data (data (moduleInformation (Instance_module inst))) (Instance_memory inst)
      = Thrown e (Some (m\<lparr>Memory_memory := Some memory'\<rparr>))"
    using assms(3,4,5) by (simp add: evaluate_data_def)
  then show ?thesis
    using assms(1,2) by (simp add: evaluate_def)
qed

theorem evaluate_not_atomic_witness:
  "tableSlotOf (Returned ([], linked notAtomicInstance)) 0 = None
   \<and> memoryByteOf (Returned ([], linked notAtomicInstance)) 1 = Some 0
   \<and> (\<exists>s. evaluate startReturns [] (linked notAtomicInstance)
            = Thrown (dataSegmentFail 16 10 10 '', segment writes outside of memory'') s)
   \<and> tableSlotOf (evaluate startReturns [] (linked notAtomicInstance)) 0 = Some 0
   \<and> memoryByteOf (evaluate startReturns [] (linked notAtomicInstance)) 1 = Some 2"
proof -
  let ?m = "zeroMemory 16"
  let ?h = "[\<lparr>Function_length = 0, Function_name = [], Function_instance = 0,
              Function_jsEntrypoint = JSEntrypointCallee 0,
              Function_wasmEntrypoint = WasmEntrypointCallee 0,
              Function_signature = noArguments 0\<rparr>]"
  let ?t = "Some (setFunction (emptyTable 2) 0 0)"
  have 1: "m_instance (linked notAtomicInstance) = Some notAtomicInstance"
    by (simp add: linked_def)
  have 2: "evaluate_elements (Instance_module notAtomicInstance) (Instance_address notAtomicInstance)
           (elements (moduleInformation (Instance_module notAtomicInstance)))
           ([], Instance_table notAtomicInstance) = Returned (?h, ?t)"
    by (simp add: notAtomicInstance_def model_defs test_defs)
  have 3: "Instance_memory notAtomicInstance = Some ?m"
    by (simp add: notAtomicInstance_def test_defs)
  have 4: "Memory_memory ?m = Some (\<lambda>a. 0)"
    by (simp add: zeroMemory_def)
  have 5: "data (moduleInformation (Instance_module notAtomicInstance))
             = [testSegment 0 2] @ testSegment 10 10 # []"
    by (simp add: notAtomicInstance_def testInstance_def testModule_def)
  have 6: "evaluate_segments (Memory_size ?m) [testSegment 0 2] (\<lambda>a. 0)
             = Returned (memcpy (\<lambda>a. 0) 0 (Segment_byte (testSegment 0 2)) 2)"
    by (simp add: evaluate_segment_def test_defs)
  have 7: "evaluate_segment (Memory_size ?m) (testSegment 10 10)
             (memcpy (\<lambda>a. 0) 0 (Segment_byte (testSegment 0 2)) 2)
           = Thrown (dataSegmentFail 16 10 10 '', segment writes outside of memory'')
               (memcpy (\<lambda>a. 0) 0 (Segment_byte (testSegment 0 2)) 2)"
    by (simp add: evaluate_segment_def test_defs)
  from evaluate_not_atomic [OF 1 2 3 4 5 6 7, of startReturns]
  show ?thesis
    by (simp add: obs_defs memcpy_def linked_def notAtomicInstance_def test_defs setFunction_def)
qed


section \<open>Linking\<close>

lemma link_bound_Crashed:
  "m_instance r \<noteq> None \<Longrightarrow> link h r inst = Crashed"
  by (auto simp add: link_def Let_def split: completion.splits prod.splits option.splits)

lemma link_Returned_instance:
  "link h r inst = Returned (h', r') \<Longrightarrow> m_instance r' = Some inst"
  by (auto simp add: link_def Let_def split: completion.splits prod.splits option.splits if_splits)

text \<open>
  C6. Linking is one-shot. \<open>link\<close> on a record whose \<open>m_instance\<close> is already set ends in a
  failed release assertion, whatever the instance; and when \<open>link\<close> returns, \<open>m_instance\<close>
  of the record is the instance linked, so that any further \<open>link\<close> on that record ends in
  the failed assertion.
\<close>

theorem link_one_shot:
  "(m_instance r \<noteq> None \<longrightarrow> link h r inst = Crashed)
   \<and> (link h r inst = Returned (h', r') \<longrightarrow>
        m_instance r' = Some inst \<and> link h2 r' inst2 = Crashed)"
proof (intro conjI impI)
  assume "m_instance r \<noteq> None"
  then show "link h r inst = Crashed" by (rule link_bound_Crashed)
next
  assume "link h r inst = Returned (h', r')"
  then show "m_instance r' = Some inst" by (rule link_Returned_instance)
next
  assume "link h r inst = Returned (h', r')"
  then have "m_instance r' \<noteq> None" by (simp add: link_Returned_instance)
  then show "link h2 r' inst2 = Crashed" by (rule link_bound_Crashed)
qed

lemma link_twoExports_Returned: "\<exists>h1 r1. link [] unlinked twoExportsInstance = Returned (h1, r1)"
  by (simp add: twoExportsInstance_def model_defs test_defs)

theorem link_one_shot_witness:
  "\<exists>h1 r1. link [] unlinked twoExportsInstance = Returned (h1, r1)
      \<and> m_instance r1 = Some twoExportsInstance
      \<and> link h1 r1 twoExportsInstance = Crashed
      \<and> link [] (linked twoExportsInstance) twoExportsInstance = Crashed"
proof -
  obtain h1 r1 where l: "link [] unlinked twoExportsInstance = Returned (h1, r1)"
    using link_twoExports_Returned by blast
  have b: "m_instance (linked twoExportsInstance) \<noteq> None"
    by (simp add: linked_def)
  from link_one_shot [of unlinked "[]" twoExportsInstance h1 r1 h1 twoExportsInstance] l
  have "m_instance r1 = Some twoExportsInstance \<and> link h1 r1 twoExportsInstance = Crashed"
    by simp
  moreover from link_one_shot [of "linked twoExportsInstance" "[]" twoExportsInstance] b
  have "link [] (linked twoExportsInstance) twoExportsInstance = Crashed"
    by simp
  ultimately show ?thesis using l by blast
qed

text \<open>
  C1. The claim asks for one wrapper per instance and function index. The code calls
  \<open>WebAssemblyFunction::create\<close> for every export entry and for every table slot. On an
  instance that exports function 0 as "f" and as "g" and puts function 0 into table slot 0,
  the three references are the three different cells 0, 1 and 2, all bound to the same
  instance and to the entry points of function 0.
\<close>

theorem wrapper_identity_failing_input:
  "exportedValueOf (link [] unlinked twoExportsInstance) ''f'' = Some (JSFunction 0)
   \<and> exportedValueOf (link [] unlinked twoExportsInstance) ''g'' = Some (JSFunction 1)
   \<and> exportedValueOf (link [] unlinked twoExportsInstance) ''f''
       \<noteq> exportedValueOf (link [] unlinked twoExportsInstance) ''g''
   \<and> tableSlotOf (link_then_evaluate startReturns [] unlinked twoExportsInstance) 0 = Some 2
   \<and> map_option Function_jsEntrypoint
        (cellOf (link_then_evaluate startReturns [] unlinked twoExportsInstance) 0)
        = Some (JSEntrypointCallee 0)
   \<and> map_option Function_jsEntrypoint
        (cellOf (link_then_evaluate startReturns [] unlinked twoExportsInstance) 1)
        = Some (JSEntrypointCallee 0)
   \<and> map_option Function_jsEntrypoint
        (cellOf (link_then_evaluate startReturns [] unlinked twoExportsInstance) 2)
        = Some (JSEntrypointCallee 0)
   \<and> map_option Function_instance
        (cellOf (link_then_evaluate startReturns [] unlinked twoExportsInstance) 0) = Some 0
   \<and> map_option Function_instance
        (cellOf (link_then_evaluate startReturns [] unlinked twoExportsInstance) 1) = Some 0
   \<and> map_option Function_instance
        (cellOf (link_then_evaluate startReturns [] unlinked twoExportsInstance) 2) = Some 0"
  by (simp add: twoExportsInstance_def model_defs test_defs obs_defs)

section \<open>Imports in exports and element segments\<close>

lemma evaluate_functionIndices_import:
  assumes "\<not> list_all (\<lambda>i. importCount jsModule \<le> i) fis"
  shows "\<exists>s'. evaluate_functionIndices jsModule inst fis tableIndex s = Thrown elementImport s'"
proof (cases "evaluate_functionIndices jsModule inst fis tableIndex s")
  case (Returned s')
  then have "\<exists>s'. evaluate_functionIndices jsModule inst fis tableIndex s = Returned s'" by blast
  then have "list_all (\<lambda>i. importCount jsModule \<le> i) fis"
    by (simp only: evaluate_functionIndices_Returned)
  then show ?thesis
    using assms by simp
next
  case (Thrown e s')
  then show ?thesis
    using evaluate_functionIndices_Thrown [OF Thrown] by simp
next
  case Crashed
  then show ?thesis
    by (simp add: evaluate_functionIndices_not_Crashed)
qed

lemma link_export_import_Crashed:
  assumes "Export_kind entry = Function"
    and "Export_kindIndex entry < importCount (Instance_module inst)"
  shows "link_export inst entry s = Crashed"
  using assms
  by (cases s) (simp add: link_export_def link_exportedValue_def Let_def)

lemma link_export_not_Thrown: "link_export inst entry s \<noteq> Thrown e s'"
  by (auto simp add: link_export_def split: prod.splits option.splits if_splits)

lemma link_exports_import_Crashed:
  assumes "entry \<in> set es"
    and "Export_kind entry = Function"
    and "Export_kindIndex entry < importCount (Instance_module inst)"
  shows "link_exports inst es s = Crashed"
  using assms(1)
proof (induction es arbitrary: s)
  case Nil
  then show ?case by simp
next
  case (Cons x xs)
  show ?case
  proof (cases "link_export inst x s")
    case (Returned s')
    then have "x \<noteq> entry"
      using link_export_import_Crashed [OF assms(2,3), of s] by auto
    then have "entry \<in> set xs" using Cons.prems by simp
    then show ?thesis using Cons.IH Returned by simp
  next
    case (Thrown e s')
    then show ?thesis using link_export_not_Thrown by blast
  next
    case Crashed
    then show ?thesis by simp
  qed
qed

text \<open>
  C5, as stated, fails for exports: on an instance whose module exports the imported
  function 0, \<open>link\<close> does not hand an error to its caller but ends in
  \<open>RELEASE_ASSERT_NOT_REACHED\<close>, which aborts the process.
\<close>

theorem reexport_import_counterexample:
  "link [] unlinked reexportInstance = Crashed"
  by (simp add: reexportInstance_def model_defs test_defs)

section \<open>The segments inside evaluate\<close>

lemma evaluate_afterElements:
  assumes "m_instance r = Some inst"
  shows "evaluate call h r =
           afterElements call r inst
             (evaluate_elements (Instance_module inst) (Instance_address inst)
                (elements (moduleInformation (Instance_module inst))) (h, Instance_table inst))"
  using assms by (simp add: evaluate_def Let_def split: completion.splits prod.splits)

lemma evaluate_elements_append:
  "evaluate_elements jsModule a (xs @ ys) s =
     (case evaluate_elements jsModule a xs s of
        Returned s' \<Rightarrow> evaluate_elements jsModule a ys s'
      | Thrown e s' \<Rightarrow> Thrown e s'
      | Crashed \<Rightarrow> Crashed)"
  by (induction xs arbitrary: s) (auto split: completion.splits)

lemma evaluate_elements_at:
  assumes "evaluate_elements jsModule a earlier s = Returned s1"
  shows "evaluate_elements jsModule a (earlier @ element # later) s =
     (case evaluate_element jsModule a element s1 of
        Returned s' \<Rightarrow> evaluate_elements jsModule a later s'
      | Thrown e s' \<Rightarrow> Thrown e s'
      | Crashed \<Rightarrow> Crashed)"
  using assms by (simp add: evaluate_elements_append)

lemma evaluate_afterSegments:
  assumes "m_instance r = Some inst"
    and "evaluate_elements (Instance_module inst) (Instance_address inst)
           (elements (moduleInformation (Instance_module inst))) (h, Instance_table inst)
         = Returned (h', table')"
    and "Instance_memory inst = Some m"
    and "Memory_memory m = Some memory"
    and "data (moduleInformation (Instance_module inst)) \<noteq> []"
  shows "evaluate call h r =
           afterSegments call r inst h' table' m
             (evaluate_segments (Memory_size m) (data (moduleInformation (Instance_module inst))) memory)"
  using assms by (simp add: evaluate_def evaluate_data_def Let_def split: completion.splits)

lemma evaluate_segments_at:
  assumes "evaluate_segments n earlier memory = Returned memory1"
  shows "evaluate_segments n (earlier @ segment # later) memory =
     (case evaluate_segment n segment memory1 of
        Returned memory' \<Rightarrow> evaluate_segments n later memory'
      | Thrown e memory' \<Rightarrow> Thrown e memory'
      | Crashed \<Rightarrow> Crashed)"
  using assms by (simp add: evaluate_segments_append)





text \<open>
  With a data section and no memory, or a memory whose buffer is null, \<open>evaluate\<close> fails a
  release assertion before it looks at any segment; validation excludes such a module.
\<close>

lemma evaluate_data_without_memory:
  assumes "m_instance r = Some inst"
    and "evaluate_elements (Instance_module inst) (Instance_address inst)
           (elements (moduleInformation (Instance_module inst))) (h, Instance_table inst)
         = Returned (h', table')"
    and "data (moduleInformation (Instance_module inst)) \<noteq> []"
    and "Instance_memory inst = None \<or> (\<exists>m. Instance_memory inst = Some m \<and> Memory_memory m = None)"
  shows "evaluate call h r = Crashed"
  using assms by (auto simp add: evaluate_def evaluate_data_def)

text \<open>
  C4. Let the table population have returned, let the instance have a memory with a buffer
  (with a data section \<open>evaluate\<close> asserts both before it looks at any segment), and let
  \<open>evaluate\<close> have copied the data segments before the one considered. For a segment whose
  length is zero, whatever its offset and whatever the size of the memory, \<open>evaluate\<close>
  compares nothing, throws nothing and copies nothing for it: it goes on with the later
  segments on the memory as the earlier segments left it.
\<close>

theorem empty_segment_skipped:
  assumes "m_instance r = Some inst"
    and "evaluate_elements (Instance_module inst) (Instance_address inst)
           (elements (moduleInformation (Instance_module inst))) (h, Instance_table inst)
         = Returned (h', table')"
    and "Instance_memory inst = Some m"
    and "Memory_memory m = Some memory"
    and "data (moduleInformation (Instance_module inst)) = earlier @ segment # later"
    and "evaluate_segments (Memory_size m) earlier memory = Returned memory1"
    and "Segment_sizeInBytes segment = 0"
  shows "evaluate call h r =
           afterSegments call r inst h' table' m (evaluate_segments (Memory_size m) later memory1)"
proof -
  have ne: "data (moduleInformation (Instance_module inst)) \<noteq> []"
    using assms(5) by simp
  have ev: "evaluate call h r =
      afterSegments call r inst h' table' m
        (evaluate_segments (Memory_size m) (earlier @ segment # later) memory)"
    using evaluate_afterSegments [OF assms(1,2,3,4) ne] assms(5) by simp
  have seg: "evaluate_segment (Memory_size m) segment memory1 = Returned memory1"
    using assms(7) by (simp add: evaluate_segment_def)
  show ?thesis
    unfolding ev evaluate_segments_at [OF assms(6)] seg by simp
qed

theorem empty_segment_skipped_witness:
  "(\<exists>s. evaluate startReturns [] (linked emptySegmentInstance) = Returned s)
   \<and> memoryByteOf (evaluate startReturns [] (linked emptySegmentInstance)) 0 = Some 1
   \<and> memoryByteOf (evaluate startReturns [] (linked emptySegmentInstance)) 1 = Some 2
   \<and> memoryByteOf (evaluate startReturns [] (linked emptySegmentInstance)) 2 = Some 0
   \<and> memoryByteOf (evaluate startReturns [] (linked emptySegmentInstance)) 3 = Some 1
   \<and> memoryByteOf (evaluate startReturns [] (linked emptySegmentInstance)) 99 = Some 0"
proof -
  have 1: "m_instance (linked emptySegmentInstance) = Some emptySegmentInstance"
    by (simp add: linked_def)
  have 2: "evaluate_elements (Instance_module emptySegmentInstance)
       (Instance_address emptySegmentInstance)
       (elements (moduleInformation (Instance_module emptySegmentInstance)))
       ([], Instance_table emptySegmentInstance) = Returned ([], Some (emptyTable 0))"
    by (simp add: emptySegmentInstance_def test_defs)
  have 3: "Instance_memory emptySegmentInstance = Some (zeroMemory 100)"
    by (simp add: emptySegmentInstance_def test_defs)
  have 4: "Memory_memory (zeroMemory 100) = Some (\<lambda>a. 0)"
    by (simp add: zeroMemory_def)
  have 5: "data (moduleInformation (Instance_module emptySegmentInstance))
      = [testSegment 0 2] @ testSegment 1100 0 # [testSegment 3 1]"
    by (simp add: emptySegmentInstance_def test_defs)
  have 6: "evaluate_segments (Memory_size (zeroMemory 100)) [testSegment 0 2] (\<lambda>a. 0)
      = Returned (memcpy (\<lambda>a. 0) 0 (Segment_byte (testSegment 0 2)) 2)"
    by (simp add: evaluate_segment_def test_defs)
  have 7: "Segment_sizeInBytes (testSegment 1100 0) = 0"
    by (simp add: testSegment_def)
  from empty_segment_skipped [OF 1 2 3 4 5 6 7, of startReturns]
  show ?thesis
    by (simp add: obs_defs evaluate_segment_def memcpy_def linked_def emptySegmentInstance_def
        test_defs)
qed


lemma evaluate_element_import:
  assumes "Element_functionIndices element \<noteq> []"
    and "length (Element_functionIndices element) < 2 ^ 32"
    and "unat (Element_offset element) + length (Element_functionIndices element) - 1
           < unat (Table_size t)"
    and "\<not> list_all (\<lambda>i. importCount jsModule \<le> i) (Element_functionIndices element)"
  shows "\<exists>h2 t2. evaluate_element jsModule a element (h1, Some t) = Thrown elementImport (h2, Some t2)"
proof -
  have "unat (lastWrittenIndex element) < unat (Table_size t)"
    using assms(3) unat_lastWrittenIndex [OF assms(1,2)] by simp
  then have check: "\<not> lastWrittenIndex element \<ge> ucast (Table_size t)"
    by (simp add: word_le_nat_alt unat_ucast_32_64)
  obtain s' where
    "evaluate_functionIndices jsModule a (Element_functionIndices element)
       (Element_offset element) (h1, t) = Thrown elementImport s'"
    using evaluate_functionIndices_import [OF assms(4)] by blast
  then show ?thesis
    using assms(1) check by (cases s') (simp add: evaluate_element_def)
qed

lemma evaluate_element_passed:
  assumes "Element_functionIndices element \<noteq> []"
    and "length (Element_functionIndices element) < 2 ^ 32"
    and "unat (Element_offset element) + length (Element_functionIndices element) - 1
           < unat (Table_size t)"
    and "list_all (\<lambda>i. importCount jsModule \<le> i) (Element_functionIndices element)"
  shows "\<exists>h2 t2. evaluate_functionIndices jsModule a (Element_functionIndices element)
                    (Element_offset element) (h1, t) = Returned (h2, t2)
                \<and> evaluate_element jsModule a element (h1, Some t) = Returned (h2, Some t2)"
proof -
  have "unat (lastWrittenIndex element) < unat (Table_size t)"
    using assms(3) unat_lastWrittenIndex [OF assms(1,2)] by simp
  then have check: "\<not> lastWrittenIndex element \<ge> ucast (Table_size t)"
    by (simp add: word_le_nat_alt unat_ucast_32_64)
  have "\<exists>s'. evaluate_functionIndices jsModule a (Element_functionIndices element)
                    (Element_offset element) (h1, t) = Returned s'"
    using assms(4) by (simp only: evaluate_functionIndices_Returned)
  then obtain h2 t2 where
    "evaluate_functionIndices jsModule a (Element_functionIndices element)
       (Element_offset element) (h1, t) = Returned (h2, t2)"
    by (metis surj_pair)
  then show ?thesis
    using assms(1) check by (simp add: evaluate_element_def)
qed

lemma evaluate_element_out_of_bounds:
  assumes "Element_functionIndices element \<noteq> []"
    and "length (Element_functionIndices element) < 2 ^ 32"
    and "unat (Table_size t)
           \<le> unat (Element_offset element) + length (Element_functionIndices element) - 1"
  shows "evaluate_element jsModule a element (h1, Some t) = Thrown elementOutOfBounds (h1, Some t)"
proof -
  have "unat (Table_size t) \<le> unat (lastWrittenIndex element)"
    using assms(3) unat_lastWrittenIndex [OF assms(1,2)] by simp
  then have "lastWrittenIndex element \<ge> ucast (Table_size t)"
    by (simp add: word_le_nat_alt unat_ucast_32_64)
  then show ?thesis
    using assms(1) by (simp add: evaluate_element_def)
qed

text \<open>
  C2. Let the table be present and let \<open>evaluate\<close> have returned from the element segments
  before the one considered. For a segment with a non-empty list of function indices (of
  fewer than \<open>2 ^ 32\<close> entries, as a vector of the engine has), \<open>lastWrittenIndex\<close> is
  computed in 64 bits and equals offset + count - 1 as natural numbers, without wrap-around.
  When that index is at least the size of the table, \<open>evaluate\<close> throws the RangeError
  "Element is trying to set an out of bounds table index", with the table as the earlier
  segments left it. When it is below the size of the table, the segment does not raise that
  error: if one of its function indices is an import, \<open>evaluate\<close> throws the RangeError for
  imports (the subject of C5); if none is, all its slots are written and \<open>evaluate\<close> goes on
  with the later segments.
\<close>

theorem element_bounds_check:
  assumes "m_instance r = Some inst"
    and "elements (moduleInformation (Instance_module inst)) = earlier @ element # later"
    and "evaluate_elements (Instance_module inst) (Instance_address inst) earlier
           (h, Instance_table inst) = Returned (h1, Some t)"
    and "Element_functionIndices element \<noteq> []"
    and "length (Element_functionIndices element) < 2 ^ 32"
  shows "unat (lastWrittenIndex element)
           = unat (Element_offset element) + length (Element_functionIndices element) - 1
   \<and> (unat (Table_size t)
         \<le> unat (Element_offset element) + length (Element_functionIndices element) - 1
       \<longrightarrow> evaluate call h r =
             Thrown elementOutOfBounds
               (h1, r\<lparr>m_instance := Some (inst\<lparr>Instance_table := Some t\<rparr>)\<rparr>))
   \<and> (unat (Element_offset element) + length (Element_functionIndices element) - 1
         < unat (Table_size t)
       \<and> \<not> list_all (\<lambda>i. importCount (Instance_module inst) \<le> i)
             (Element_functionIndices element)
       \<longrightarrow> (\<exists>h2 t2. evaluate call h r =
             Thrown elementImport
               (h2, r\<lparr>m_instance := Some (inst\<lparr>Instance_table := Some t2\<rparr>)\<rparr>)))
   \<and> (unat (Element_offset element) + length (Element_functionIndices element) - 1
         < unat (Table_size t)
       \<and> list_all (\<lambda>i. importCount (Instance_module inst) \<le> i)
             (Element_functionIndices element)
       \<longrightarrow> (\<exists>h2 t2.
             evaluate_functionIndices (Instance_module inst) (Instance_address inst)
               (Element_functionIndices element) (Element_offset element) (h1, t)
               = Returned (h2, t2)
             \<and> evaluate call h r =
                 afterElements call r inst
                   (evaluate_elements (Instance_module inst) (Instance_address inst) later
                      (h2, Some t2))))"
proof -
  let ?m = "Instance_module inst" and ?a = "Instance_address inst"
  let ?last = "unat (Element_offset element) + length (Element_functionIndices element) - 1"
  have ev: "evaluate call h r =
      afterElements call r inst
        (case evaluate_element ?m ?a element (h1, Some t) of
           Returned s' \<Rightarrow> evaluate_elements ?m ?a later s'
         | Thrown e s' \<Rightarrow> Thrown e s'
         | Crashed \<Rightarrow> Crashed)"
    using evaluate_afterElements [OF assms(1), of call h] assms(2)
      evaluate_elements_at [OF assms(3), of element later]
    by simp
  have 1: "unat (lastWrittenIndex element) = ?last"
    by (rule unat_lastWrittenIndex [OF assms(4,5)])
  have 2: "evaluate call h r =
      Thrown elementOutOfBounds (h1, r\<lparr>m_instance := Some (inst\<lparr>Instance_table := Some t\<rparr>)\<rparr>)"
    if "unat (Table_size t) \<le> ?last"
    unfolding ev evaluate_element_out_of_bounds [OF assms(4,5) that] by simp
  have 3: "\<exists>h2 t2. evaluate call h r =
      Thrown elementImport (h2, r\<lparr>m_instance := Some (inst\<lparr>Instance_table := Some t2\<rparr>)\<rparr>)"
    if lt: "?last < unat (Table_size t)"
      and imp: "\<not> list_all (\<lambda>i. importCount ?m \<le> i) (Element_functionIndices element)"
  proof -
    obtain h2 t2 where
      "evaluate_element ?m ?a element (h1, Some t) = Thrown elementImport (h2, Some t2)"
      using evaluate_element_import [OF assms(4,5) lt imp] by blast
    then have "evaluate call h r =
      Thrown elementImport (h2, r\<lparr>m_instance := Some (inst\<lparr>Instance_table := Some t2\<rparr>)\<rparr>)"
      unfolding ev by simp
    then show ?thesis by blast
  qed
  have 4: "\<exists>h2 t2.
      evaluate_functionIndices ?m ?a (Element_functionIndices element) (Element_offset element) (h1, t)
        = Returned (h2, t2)
      \<and> evaluate call h r =
          afterElements call r inst (evaluate_elements ?m ?a later (h2, Some t2))"
    if lt: "?last < unat (Table_size t)"
      and loc: "list_all (\<lambda>i. importCount ?m \<le> i) (Element_functionIndices element)"
  proof -
    obtain h2 t2 where
      a: "evaluate_functionIndices ?m ?a (Element_functionIndices element) (Element_offset element)
            (h1, t) = Returned (h2, t2)"
      and b: "evaluate_element ?m ?a element (h1, Some t) = Returned (h2, Some t2)"
      using evaluate_element_passed [OF assms(4,5) lt loc] by blast
    have "evaluate call h r =
        afterElements call r inst (evaluate_elements ?m ?a later (h2, Some t2))"
      unfolding ev b by simp
    with a show ?thesis by blast
  qed
  from 1 2 3 4 show ?thesis by blast
qed


lemma lastWrittenIndex_near_maximum:
  "unat (lastWrittenIndex (testElement 4294967295 (replicate 4294967295 0))) = 8589934589"
proof -
  have c: "Element_functionIndices (testElement 4294967295 (replicate 4294967295 0)) \<noteq> []"
   and d: "length (Element_functionIndices (testElement 4294967295 (replicate 4294967295 0))) < 2 ^ 32"
    by (simp_all add: testElement_def)
  from unat_lastWrittenIndex [OF c d] show ?thesis
    by (simp add: testElement_def)
qed

lemma elements_facts:
  "m_instance (linked (elementsInstance n)) = Some (elementsInstance n)"
  "elements (moduleInformation (Instance_module (elementsInstance n)))
     = [testElement 2 [0]] @ testElement 5 [0, 1, 2] # []"
  "Element_functionIndices (testElement 5 [0, 1, 2]) \<noteq> []"
  "length (Element_functionIndices (testElement 5 [0, 1, 2])) < 2 ^ 32"
  by (simp_all add: elementsInstance_def test_defs)

theorem element_bounds_check_witness:
  "unat (lastWrittenIndex (testElement 5 [0, 1, 2])) = 7
   \<and> (\<exists>s. evaluate startReturns [] (linked (elementsInstance 7)) = Thrown elementOutOfBounds s)
   \<and> tableSlotOf (evaluate startReturns [] (linked (elementsInstance 7))) 2 = Some 0
   \<and> tableSlotOf (evaluate startReturns [] (linked (elementsInstance 7))) 5 = None
   \<and> (\<exists>s. evaluate startReturns [] (linked (elementsInstance 8)) = Returned s)
   \<and> tableSlotOf (evaluate startReturns [] (linked (elementsInstance 8))) 4 = None
   \<and> tableSlotOf (evaluate startReturns [] (linked (elementsInstance 8))) 5 = Some 1
   \<and> tableSlotOf (evaluate startReturns [] (linked (elementsInstance 8))) 6 = Some 2
   \<and> tableSlotOf (evaluate startReturns [] (linked (elementsInstance 8))) 7 = Some 3
   \<and> (\<exists>s. evaluate startReturns [] (linked importElementsInstance) = Thrown elementImport s)"
proof -
  have b7: "evaluate_elements (Instance_module (elementsInstance 7))
      (Instance_address (elementsInstance 7)) [testElement 2 [0]]
      ([], Instance_table (elementsInstance 7))
      = Returned ([testCell 0], Some (setFunction (emptyTable 7) 2 0))"
    by (simp add: elementsInstance_def testCell_def model_defs test_defs)
  have b8: "evaluate_elements (Instance_module (elementsInstance 8))
      (Instance_address (elementsInstance 8)) [testElement 2 [0]]
      ([], Instance_table (elementsInstance 8))
      = Returned ([testCell 0], Some (setFunction (emptyTable 8) 2 0))"
    by (simp add: elementsInstance_def testCell_def model_defs test_defs)
  have i1: "m_instance (linked importElementsInstance) = Some importElementsInstance"
    and i2: "elements (moduleInformation (Instance_module importElementsInstance))
       = [testElement 0 [1]] @ testElement 1 [1, 0] # []"
    and i4: "Element_functionIndices (testElement 1 [1, 0]) \<noteq> []"
    and i5: "length (Element_functionIndices (testElement 1 [1, 0])) < 2 ^ 32"
    by (simp_all add: importElementsInstance_def test_defs)
  have i3: "evaluate_elements (Instance_module importElementsInstance)
      (Instance_address importElementsInstance) [testElement 0 [1]]
      ([], Instance_table importElementsInstance)
      = Returned ([testCell 1], Some (setFunction (emptyTable 3) 0 0))"
    by (simp add: importElementsInstance_def testCell_def model_defs test_defs)
  from element_bounds_check [OF elements_facts(1,2) b7 elements_facts(3,4), of startReturns]
  have w7: "unat (lastWrittenIndex (testElement 5 [0, 1, 2])) = 7
    \<and> evaluate startReturns [] (linked (elementsInstance 7))
        = Thrown elementOutOfBounds ([testCell 0],
            (linked (elementsInstance 7))\<lparr>m_instance :=
               Some ((elementsInstance 7)\<lparr>Instance_table := Some (setFunction (emptyTable 7) 2 0)\<rparr>)\<rparr>)"
    by (simp add: test_defs setFunction_def)
  from element_bounds_check [OF elements_facts(1,2) b8 elements_facts(3,4), of startReturns]
  have w8: "\<exists>h2 t2. evaluate_functionIndices (Instance_module (elementsInstance 8))
          (Instance_address (elementsInstance 8)) (Element_functionIndices (testElement 5 [0, 1, 2]))
          (Element_offset (testElement 5 [0, 1, 2])) ([testCell 0], setFunction (emptyTable 8) 2 0)
          = Returned (h2, t2)
      \<and> evaluate startReturns [] (linked (elementsInstance 8))
          = afterElements startReturns (linked (elementsInstance 8)) (elementsInstance 8)
              (evaluate_elements (Instance_module (elementsInstance 8))
                 (Instance_address (elementsInstance 8)) [] (h2, Some t2))"
    by (simp add: elementsInstance_def test_defs setFunction_def)
  from element_bounds_check [OF i1 i2 i3 i4 i5, of startReturns]
  have w9: "\<exists>s. evaluate startReturns [] (linked importElementsInstance) = Thrown elementImport s"
    by (auto simp add: importElementsInstance_def test_defs setFunction_def)
  have w8x: "(\<exists>s. evaluate startReturns [] (linked (elementsInstance 8)) = Returned s)
   \<and> tableSlotOf (evaluate startReturns [] (linked (elementsInstance 8))) 4 = None
   \<and> tableSlotOf (evaluate startReturns [] (linked (elementsInstance 8))) 5 = Some 1
   \<and> tableSlotOf (evaluate startReturns [] (linked (elementsInstance 8))) 6 = Some 2
   \<and> tableSlotOf (evaluate startReturns [] (linked (elementsInstance 8))) 7 = Some 3"
    using w8
    by (auto simp add: elementsInstance_def testCell_def model_defs test_defs obs_defs)
  from w7 have w7x: "(\<exists>s. evaluate startReturns [] (linked (elementsInstance 7)) = Thrown elementOutOfBounds s)
   \<and> tableSlotOf (evaluate startReturns [] (linked (elementsInstance 7))) 2 = Some 0
   \<and> tableSlotOf (evaluate startReturns [] (linked (elementsInstance 7))) 5 = None"
    by (simp add: obs_defs setFunction_def emptyTable_def)
  from w7 w7x w8x w9 show ?thesis by blast
qed

text \<open>
  C5, amended. The two unsupported situations are both explicit, but only one is recoverable.
  When \<open>evaluate\<close> comes to an element segment that is within the bounds of the table and
  names a function index in the import range, it throws the RangeError "Element is setting the
  table value with an import. This is not yet implemented. FIXME." to the caller. A function
  export whose index is in the import range makes \<open>link\<close> abort on a failed release assertion,
  whatever the heap and the record. In neither case is a wrapper made for the import.
\<close>

theorem import_references:
  "(m_instance r = Some inst
      \<and> elements (moduleInformation (Instance_module inst)) = earlier @ element # later
      \<and> evaluate_elements (Instance_module inst) (Instance_address inst) earlier
           (h, Instance_table inst) = Returned (h1, Some t)
      \<and> Element_functionIndices element \<noteq> []
      \<and> length (Element_functionIndices element) < 2 ^ 32
      \<and> unat (Element_offset element) + length (Element_functionIndices element) - 1
           < unat (Table_size t)
      \<and> functionIndex \<in> set (Element_functionIndices element)
      \<and> functionIndex < importCount (Instance_module inst)
    \<longrightarrow> (\<exists>h2 t2. evaluate call h r =
           Thrown elementImport
             (h2, r\<lparr>m_instance := Some (inst\<lparr>Instance_table := Some t2\<rparr>)\<rparr>)))
   \<and> (entry \<in> set (exports (moduleInformation (Instance_module inst0)))
      \<and> Export_kind entry = Function
      \<and> Export_kindIndex entry < importCount (Instance_module inst0)
    \<longrightarrow> link h0 r0 inst0 = Crashed)"
proof (intro conjI impI)
  let ?m = "Instance_module inst" and ?a = "Instance_address inst"
  assume a: "m_instance r = Some inst
      \<and> elements (moduleInformation (Instance_module inst)) = earlier @ element # later
      \<and> evaluate_elements (Instance_module inst) (Instance_address inst) earlier
           (h, Instance_table inst) = Returned (h1, Some t)
      \<and> Element_functionIndices element \<noteq> []
      \<and> length (Element_functionIndices element) < 2 ^ 32
      \<and> unat (Element_offset element) + length (Element_functionIndices element) - 1
           < unat (Table_size t)
      \<and> functionIndex \<in> set (Element_functionIndices element)
      \<and> functionIndex < importCount (Instance_module inst)"
  then have inst: "m_instance r = Some inst"
    and elems: "elements (moduleInformation ?m) = earlier @ element # later"
    and before: "evaluate_elements ?m ?a earlier (h, Instance_table inst) = Returned (h1, Some t)"
    and ne: "Element_functionIndices element \<noteq> []"
    and len: "length (Element_functionIndices element) < 2 ^ 32"
    and lt: "unat (Element_offset element) + length (Element_functionIndices element) - 1
           < unat (Table_size t)"
    and mem: "functionIndex \<in> set (Element_functionIndices element)"
    and imp: "functionIndex < importCount ?m"
    by simp_all
  have "\<not> importCount ?m \<le> functionIndex"
    using imp by (simp only: not_le)
  then have "\<not> list_all (\<lambda>i. importCount ?m \<le> i) (Element_functionIndices element)"
    using mem by (auto simp add: list_all_iff)
  then obtain h2 t2 where
    "evaluate_element ?m ?a element (h1, Some t) = Thrown elementImport (h2, Some t2)"
    using evaluate_element_import [OF ne len lt] by blast
  then have "evaluate call h r =
      Thrown elementImport (h2, r\<lparr>m_instance := Some (inst\<lparr>Instance_table := Some t2\<rparr>)\<rparr>)"
    using evaluate_afterElements [OF inst, of call h] elems
      evaluate_elements_at [OF before, of element later]
    by simp
  then show "\<exists>h2 t2. evaluate call h r =
      Thrown elementImport (h2, r\<lparr>m_instance := Some (inst\<lparr>Instance_table := Some t2\<rparr>)\<rparr>)"
    by blast
next
  assume b: "entry \<in> set (exports (moduleInformation (Instance_module inst0)))
      \<and> Export_kind entry = Function
      \<and> Export_kindIndex entry < importCount (Instance_module inst0)"
  then have b1: "entry \<in> set (exports (moduleInformation (Instance_module inst0)))"
    and b2: "Export_kind entry = Function"
    and b3: "Export_kindIndex entry < importCount (Instance_module inst0)" by simp_all
  have "link_exports inst0 (exports (moduleInformation (Instance_module inst0)))
       (h0, m_startFunction r0, JSModuleEnvironment_create (exportSymbolTable (Instance_module inst0)))
     = Crashed"
    by (rule link_exports_import_Crashed [OF b1 b2 b3])
  then show "link h0 r0 inst0 = Crashed"
    by (simp add: link_def Let_def)
qed

theorem import_references_witness:
  "(\<exists>s. evaluate startReturns [] (linked importElementsInstance) = Thrown elementImport s)
   \<and> link [] unlinked reexportInstance = Crashed
   \<and> tableSlotOf (evaluate startReturns [] (linked importElementsInstance)) 0 = Some 0
   \<and> tableSlotOf (evaluate startReturns [] (linked importElementsInstance)) 1 = Some 1
   \<and> tableSlotOf (evaluate startReturns [] (linked importElementsInstance)) 2 = None"
proof -
  have a: "m_instance (linked importElementsInstance) = Some importElementsInstance
      \<and> elements (moduleInformation (Instance_module importElementsInstance))
           = [testElement 0 [1]] @ testElement 1 [1, 0] # []
      \<and> evaluate_elements (Instance_module importElementsInstance)
           (Instance_address importElementsInstance) [testElement 0 [1]]
           ([], Instance_table importElementsInstance)
           = Returned ([testCell 1], Some (setFunction (emptyTable 3) 0 0))
      \<and> Element_functionIndices (testElement 1 [1, 0]) \<noteq> []
      \<and> length (Element_functionIndices (testElement 1 [1, 0])) < 2 ^ 32
      \<and> unat (Element_offset (testElement 1 [1, 0]))
           + length (Element_functionIndices (testElement 1 [1, 0])) - 1
           < unat (Table_size (setFunction (emptyTable 3) 0 0))
      \<and> 0 \<in> set (Element_functionIndices (testElement 1 [1, 0]))
      \<and> 0 < importCount (Instance_module importElementsInstance)"
    by (simp add: importElementsInstance_def testCell_def model_defs test_defs)
  have b: "functionExport ''f'' 0 \<in> set (exports (moduleInformation (Instance_module reexportInstance)))
      \<and> Export_kind (functionExport ''f'' 0) = Function
      \<and> Export_kindIndex (functionExport ''f'' 0) < importCount (Instance_module reexportInstance)"
    by (simp add: reexportInstance_def testInstance_def testModule_def functionExport_def)
  have c: "tableSlotOf (evaluate startReturns [] (linked importElementsInstance)) 0 = Some 0
   \<and> tableSlotOf (evaluate startReturns [] (linked importElementsInstance)) 1 = Some 1
   \<and> tableSlotOf (evaluate startReturns [] (linked importElementsInstance)) 2 = None"
    by (simp add: importElementsInstance_def model_defs test_defs obs_defs)
  from import_references [where r = "linked importElementsInstance" and inst = importElementsInstance
      and earlier = "[testElement 0 [1]]" and element = "testElement 1 [1, 0]" and later = "[]"
      and h = "[]" and ?h1.0 = "[testCell 1]" and t = "setFunction (emptyTable 3) 0 0"
      and functionIndex = 0 and call = startReturns
      and entry = "functionExport ''f'' 0" and ?inst0.0 = reexportInstance and ?h0.0 = "[]"
      and ?r0.0 = unlinked] a b c
  show ?thesis by blast
qed

section \<open>The executable allocator\<close>

lemmas alloc_defs = allocateNewSpace_def newNumPages_def MetaAllocator_allocate_def
  ExecutableAllocator_allocate_def bytesAllocatedByAllAllocators_def memoryPressureMultiplier_def
  double_of_size_t_def Let_def

lemmas alloc_test_defs = testConfig_def testReserve_def testAllocator_def testProcess_def
  handleOf_def processOf_def exact_def

subsection \<open>The pressure multiplier\<close>

lemma unat_limit_minus_clamped:
  fixes limit s :: "64 word"
  shows "unat (limit - (if limit \<le> s then limit else s)) = unat limit - min (unat s) (unat limit)"
proof (cases "limit \<le> s")
  case True
  then have "unat limit \<le> unat s" by (simp add: word_le_nat_alt)
  then show ?thesis using True by (simp add: min_def)
next
  case False
  then have "s \<le> limit" by simp
  then have "unat (limit - s) = unat limit - unat s" by (rule unat_sub)
  moreover have "unat s \<le> unat limit" using \<open>s \<le> limit\<close> by (simp add: word_le_nat_alt)
  ultimately show ?thesis using False by (simp add: min_def)
qed

lemma memoryPressureMultiplier_limit:
  assumes "EXECUTABLE_MEMORY_LIMIT cfg = Some limit"
  shows "memoryPressureMultiplier rnd cfg st a =
           multiplierFor rnd (unat limit)
             (unat limit - min (unat (bytesAllocatedByAllAllocators st + a)) (unat limit))"
  by (simp only: memoryPressureMultiplier_def multiplierFor_def double_of_size_t_def Let_def
      assms option.case unat_limit_minus_clamped)

lemma rnd_ge_1:
  fixes rnd :: "rat \<Rightarrow> rat"
  assumes "mono rnd" and "rnd 1 = 1" and "1 \<le> (n::nat)"
  shows "1 \<le> rnd (of_nat n)"
proof -
  have "(1::rat) \<le> of_nat n" using assms(3) by simp
  then have "rnd 1 \<le> rnd (of_nat n)" by (rule monoD [OF assms(1)])
  then show ?thesis using assms(2) by simp
qed

lemma rnd_of_nat_mono:
  fixes rnd :: "rat \<Rightarrow> rat"
  assumes "mono rnd" and "(m::nat) \<le> n"
  shows "rnd (of_nat m) \<le> rnd (of_nat n)"
proof -
  have "(of_nat m :: rat) \<le> of_nat n" using assms(2) by simp
  then show ?thesis by (rule monoD [OF assms(1)])
qed

lemma multiplierFor_zero:
  assumes "mono rnd" and "rnd 0 = 0" and "rnd 1 = 1" and "1 \<le> limit"
  shows "multiplierFor rnd limit 0 = Infinity"
proof -
  have "1 \<le> rnd (of_nat limit)" using assms(1,3,4) by (rule rnd_ge_1)
  then have "rnd (of_nat limit) \<noteq> 0" by simp
  then show ?thesis using assms(2) by (simp add: multiplierFor_def)
qed

lemma multiplierFor_pos:
  assumes "mono rnd" and "rnd 1 = 1" and "1 \<le> free" and "free \<le> limit"
  shows "multiplierFor rnd limit free = Finite (rnd (rnd (of_nat limit) / rnd (of_nat free)))"
    and "1 \<le> rnd (rnd (of_nat limit) / rnd (of_nat free))"
proof -
  have f: "1 \<le> rnd (of_nat free)" using assms(1,2,3) by (rule rnd_ge_1)
  have le: "rnd (of_nat free) \<le> rnd (of_nat limit)" using assms(1,4) by (rule rnd_of_nat_mono)
  have "1 \<le> rnd (of_nat limit) / rnd (of_nat free)"
    using f le by (simp add: le_divide_eq)
  then have "rnd 1 \<le> rnd (rnd (of_nat limit) / rnd (of_nat free))"
    by (rule monoD [OF assms(1)])
  then show q: "1 \<le> rnd (rnd (of_nat limit) / rnd (of_nat free))"
    using assms(2) by simp
  have "rnd (of_nat free) \<noteq> 0" using f by simp
  then show "multiplierFor rnd limit free = Finite (rnd (rnd (of_nat limit) / rnd (of_nat free)))"
    using q by (simp add: multiplierFor_def Let_def)
qed

lemma multiplierFor_ge_1:
  assumes "mono rnd" and "rnd 0 = 0" and "rnd 1 = 1" and "1 \<le> limit" and "free \<le> limit"
  shows "double_less_eq (Finite 1) (multiplierFor rnd limit free)"
proof (cases "free = 0")
  case True
  then show ?thesis using multiplierFor_zero [OF assms(1,2,3,4)] by simp
next
  case False
  then have "1 \<le> free" by simp
  then show ?thesis using multiplierFor_pos [OF assms(1,3) _ assms(5)] by simp
qed

lemma multiplierFor_antimono:
  assumes "mono rnd" and "rnd 0 = 0" and "rnd 1 = 1" and "1 \<le> limit"
    and "free' \<le> free" and "free \<le> limit"
  shows "double_less_eq (multiplierFor rnd limit free) (multiplierFor rnd limit free')"
proof (cases "free' = 0")
  case True
  have "multiplierFor rnd limit free' = Infinity"
    using True multiplierFor_zero [OF assms(1,2,3,4)] by simp
  moreover have "multiplierFor rnd limit free \<noteq> NaN"
    using multiplierFor_ge_1 [OF assms(1,2,3,4,6)] by auto
  ultimately show ?thesis by (cases "multiplierFor rnd limit free") simp_all
next
  case False
  then have p': "1 \<le> free'" by simp
  then have p: "1 \<le> free" using assms(5) by simp
  have le': "free' \<le> limit" using assms(5,6) by simp
  have f': "1 \<le> rnd (of_nat free')" using assms(1,3) p' by (rule rnd_ge_1)
  have ff: "rnd (of_nat free') \<le> rnd (of_nat free)" using assms(1,5) by (rule rnd_of_nat_mono)
  have l: "0 \<le> rnd (of_nat limit)" using rnd_ge_1 [OF assms(1,3,4)] by simp
  have "rnd (of_nat limit) / rnd (of_nat free) \<le> rnd (of_nat limit) / rnd (of_nat free')"
    using f' ff l by (intro divide_left_mono) simp_all
  then have "rnd (rnd (of_nat limit) / rnd (of_nat free))
      \<le> rnd (rnd (of_nat limit) / rnd (of_nat free'))"
    by (rule monoD [OF assms(1)])
  then show ?thesis
    using multiplierFor_pos(1) [OF assms(1,3) p assms(6)] multiplierFor_pos(1) [OF assms(1,3) p' le']
    by simp
qed

text \<open>
  C9, amended. Without a limit the multiplier is exactly 1. With a limit other than 0, and for
  every rounding that keeps the order and leaves 0 and 1 as they are, the multiplier is at
  least 1 for every \<open>addedMemoryUsage\<close>, and it does not decrease from \<open>a\<close> to \<open>b\<close> when
  \<open>a \<le> b\<close> and the sum of the bytes allocated and \<open>b\<close> fits into a \<open>size_t\<close>.
\<close>

theorem memoryPressureMultiplier_monotone:
  "(EXECUTABLE_MEMORY_LIMIT cfg = None \<longrightarrow> memoryPressureMultiplier rnd cfg st a = Finite 1)
   \<and> (mono rnd \<and> rnd 0 = 0 \<and> rnd 1 = 1
        \<and> EXECUTABLE_MEMORY_LIMIT cfg = Some limit \<and> limit \<noteq> 0
      \<longrightarrow> double_less_eq (Finite 1) (memoryPressureMultiplier rnd cfg st a))
   \<and> (mono rnd \<and> rnd 0 = 0 \<and> rnd 1 = 1
        \<and> EXECUTABLE_MEMORY_LIMIT cfg = Some limit \<and> limit \<noteq> 0
        \<and> a \<le> b \<and> unat (bytesAllocatedByAllAllocators st) + unat b < 2 ^ 64
      \<longrightarrow> double_less_eq (memoryPressureMultiplier rnd cfg st a)
            (memoryPressureMultiplier rnd cfg st b))"
proof (intro conjI impI)
  assume "EXECUTABLE_MEMORY_LIMIT cfg = None"
  then show "memoryPressureMultiplier rnd cfg st a = Finite 1"
    by (simp add: memoryPressureMultiplier_def)
next
  assume h: "mono rnd \<and> rnd 0 = 0 \<and> rnd 1 = 1
        \<and> EXECUTABLE_MEMORY_LIMIT cfg = Some limit \<and> limit \<noteq> 0"
  then have m: "mono rnd" and r0: "rnd 0 = 0" and r1: "rnd 1 = 1"
    and lim: "EXECUTABLE_MEMORY_LIMIT cfg = Some limit" and nz: "limit \<noteq> 0" by simp_all
  have L: "1 \<le> unat limit" using nz by (simp add: unat_gt_0 Suc_le_eq)
  show "double_less_eq (Finite 1) (memoryPressureMultiplier rnd cfg st a)"
    unfolding memoryPressureMultiplier_limit [OF lim]
    by (rule multiplierFor_ge_1 [OF m r0 r1 L]) simp
next
  assume h: "mono rnd \<and> rnd 0 = 0 \<and> rnd 1 = 1
        \<and> EXECUTABLE_MEMORY_LIMIT cfg = Some limit \<and> limit \<noteq> 0
        \<and> a \<le> b \<and> unat (bytesAllocatedByAllAllocators st) + unat b < 2 ^ 64"
  then have m: "mono rnd" and r0: "rnd 0 = 0" and r1: "rnd 1 = 1"
    and lim: "EXECUTABLE_MEMORY_LIMIT cfg = Some limit" and nz: "limit \<noteq> 0"
    and ab: "a \<le> b"
    and no: "unat (bytesAllocatedByAllAllocators st) + unat b < 2 ^ 64" by simp_all
  let ?agg = "bytesAllocatedByAllAllocators st"
  have L: "1 \<le> unat limit" using nz by (simp add: unat_gt_0 Suc_le_eq)
  have uab: "unat a \<le> unat b" using ab by (simp add: word_le_nat_alt)
  have sb: "unat (?agg + b) = unat ?agg + unat b"
    using no by (simp add: unat_add_lem [THEN iffD1])
  have "unat ?agg + unat a < 2 ^ 64" using no uab by simp
  then have sa: "unat (?agg + a) = unat ?agg + unat a"
    by (simp add: unat_add_lem [THEN iffD1])
  have free: "unat limit - min (unat (?agg + b)) (unat limit)
      \<le> unat limit - min (unat (?agg + a)) (unat limit)"
    using uab unfolding sa sb by arith
  show "double_less_eq (memoryPressureMultiplier rnd cfg st a)
            (memoryPressureMultiplier rnd cfg st b)"
    unfolding memoryPressureMultiplier_limit [OF lim]
    by (rule multiplierFor_antimono [OF m r0 r1 L free]) simp
qed


text \<open>
  C9, as stated, fails where the \<open>size_t\<close> sum wraps: with the limit 1000000 of the source's
  commented-out macro and 500000 bytes allocated, adding 400000 gives 10, and adding
  \<open>2 ^ 64 - 500000\<close> wraps the sum to 0 and gives 1. With a limit of 0 the quotient is 0 / 0,
  which is NaN and not at least 1. All values involved are represented exactly by a
  \<open>double\<close>.
\<close>

theorem memoryPressureMultiplier_counterexample:
  "(400000 :: 64 word) \<le> 18446744073709051616
   \<and> memoryPressureMultiplier exact (testConfig (Some 1000000)) (testProcess 500000) 400000
       = Finite 10
   \<and> memoryPressureMultiplier exact (testConfig (Some 1000000)) (testProcess 500000)
         18446744073709051616
       = Finite 1
   \<and> \<not> double_less_eq
         (memoryPressureMultiplier exact (testConfig (Some 1000000)) (testProcess 500000) 400000)
         (memoryPressureMultiplier exact (testConfig (Some 1000000)) (testProcess 500000)
            18446744073709051616)
   \<and> memoryPressureMultiplier exact (testConfig (Some 0)) (testProcess 0) 0 = NaN"
  by (simp add: alloc_defs alloc_test_defs)

lemma mono_exact: "mono exact"
  by (simp add: mono_def exact_def)

theorem memoryPressureMultiplier_monotone_witness:
  "memoryPressureMultiplier exact (testConfig None) (testProcess 500000) 400000 = Finite 1
   \<and> double_less_eq (Finite 1)
        (memoryPressureMultiplier exact (testConfig (Some 1000000)) (testProcess 500000) 100000)
   \<and> double_less_eq
        (memoryPressureMultiplier exact (testConfig (Some 1000000)) (testProcess 500000) 100000)
        (memoryPressureMultiplier exact (testConfig (Some 1000000)) (testProcess 500000) 400000)"
proof -
  have a: "EXECUTABLE_MEMORY_LIMIT (testConfig None) = None"
    by (simp add: testConfig_def)
  have b: "mono exact \<and> exact 0 = 0 \<and> exact 1 = 1
        \<and> EXECUTABLE_MEMORY_LIMIT (testConfig (Some 1000000)) = Some 1000000
        \<and> (1000000 :: 64 word) \<noteq> 0"
    by (simp add: mono_exact exact_def testConfig_def)
  have c: "(100000 :: 64 word) \<le> 400000
        \<and> unat (bytesAllocatedByAllAllocators (testProcess 500000)) + unat (400000 :: 64 word) < 2 ^ 64"
    by (simp add: bytesAllocatedByAllAllocators_def testProcess_def testAllocator_def)
  from memoryPressureMultiplier_monotone [where cfg = "testConfig None" and rnd = exact
      and st = "testProcess 500000" and a = 400000] a
  have 1: "memoryPressureMultiplier exact (testConfig None) (testProcess 500000) 400000 = Finite 1"
    by blast
  from memoryPressureMultiplier_monotone [where cfg = "testConfig (Some 1000000)" and rnd = exact
      and st = "testProcess 500000" and a = 100000 and b = 400000 and limit = 1000000] b c
  have 2: "double_less_eq (Finite 1)
        (memoryPressureMultiplier exact (testConfig (Some 1000000)) (testProcess 500000) 100000)
   \<and> double_less_eq
        (memoryPressureMultiplier exact (testConfig (Some 1000000)) (testProcess 500000) 100000)
        (memoryPressureMultiplier exact (testConfig (Some 1000000)) (testProcess 500000) 400000)"
    by blast
  from 1 2 show ?thesis by blast
qed

subsection \<open>allocate and the effort flag\<close>

text \<open>
  C8. Whatever the base class's \<open>allocate\<close> does: when it returns null and the effort is not
  \<open>JITCompilationMustSucceed\<close>, \<open>ExecutableAllocator::allocate\<close> returns null to its caller;
  when it returns null and the effort is \<open>JITCompilationMustSucceed\<close>, the release assertion
  fails and the process is aborted; a handle is returned as it is, with either effort.
\<close>

theorem allocate_effort:
  "(metaAllocate st sizeInBytes ownerUID = Returned (None, st')
        \<and> effort \<noteq> JITCompilationMustSucceed
      \<longrightarrow> ExecutableAllocator_allocate metaAllocate st sizeInBytes ownerUID effort
            = Returned (None, st'))
   \<and> (metaAllocate st sizeInBytes ownerUID = Returned (None, st')
      \<longrightarrow> ExecutableAllocator_allocate metaAllocate st sizeInBytes ownerUID JITCompilationMustSucceed
            = Crashed)
   \<and> (metaAllocate st sizeInBytes ownerUID = Returned (Some handle, st')
      \<longrightarrow> ExecutableAllocator_allocate metaAllocate st sizeInBytes ownerUID effort
            = Returned (Some handle, st'))"
  by (simp add: ExecutableAllocator_allocate_def)

lemma allocate_cap_reached_null:
  "MetaAllocator_allocate (testConfig (Some 1000)) testReserve 0 (testProcess 1000) 64 7
     = Returned (None, testProcess 1000)"
  by (simp add: alloc_defs alloc_test_defs)

lemma allocate_fresh_handle:
  "MetaAllocator_allocate (testConfig None) testReserve 0 (testProcess 0) 64 7
     = Returned (Some \<lparr>Handle_start = 1048576, Handle_sizeInBytes = 64, Handle_ownerUID = 7\<rparr>,
         processOf (MetaAllocator_allocate (testConfig None) testReserve 0 (testProcess 0) 64 7)
           (testProcess 0))"
  by (simp add: alloc_defs alloc_test_defs)

theorem allocate_effort_witness:
  "ExecutableAllocator_allocate (MetaAllocator_allocate (testConfig (Some 1000)) testReserve 0)
       (testProcess 1000) 64 7 JITCompilationCanFail
     = Returned (None, testProcess 1000)
   \<and> ExecutableAllocator_allocate (MetaAllocator_allocate (testConfig (Some 1000)) testReserve 0)
       (testProcess 1000) 64 7 JITCompilationMustSucceed
     = Crashed
   \<and> handleOf (ExecutableAllocator_allocate (MetaAllocator_allocate (testConfig None) testReserve 0)
       (testProcess 0) 64 7 JITCompilationMustSucceed)
     = Some \<lparr>Handle_start = 1048576, Handle_sizeInBytes = 64, Handle_ownerUID = 7\<rparr>"
proof -
  have e: "JITCompilationCanFail \<noteq> JITCompilationMustSucceed" by simp
  from allocate_effort [where metaAllocate = "MetaAllocator_allocate (testConfig (Some 1000)) testReserve 0"
      and st = "testProcess 1000" and sizeInBytes = 64 and ownerUID = 7 and st' = "testProcess 1000"
      and effort = JITCompilationCanFail] allocate_cap_reached_null e
  have 1: "ExecutableAllocator_allocate (MetaAllocator_allocate (testConfig (Some 1000)) testReserve 0)
       (testProcess 1000) 64 7 JITCompilationCanFail = Returned (None, testProcess 1000)
    \<and> ExecutableAllocator_allocate (MetaAllocator_allocate (testConfig (Some 1000)) testReserve 0)
       (testProcess 1000) 64 7 JITCompilationMustSucceed = Crashed"
    by blast
  from allocate_effort [where metaAllocate = "MetaAllocator_allocate (testConfig None) testReserve 0"
      and st = "testProcess 0" and sizeInBytes = 64 and ownerUID = 7
      and effort = JITCompilationMustSucceed
      and handle = "\<lparr>Handle_start = 1048576, Handle_sizeInBytes = 64, Handle_ownerUID = 7\<rparr>"
      and st' = "processOf (MetaAllocator_allocate (testConfig None) testReserve 0 (testProcess 0) 64 7)
           (testProcess 0)"] allocate_fresh_handle
  have "ExecutableAllocator_allocate (MetaAllocator_allocate (testConfig None) testReserve 0)
       (testProcess 0) 64 7 JITCompilationMustSucceed
     = Returned (Some \<lparr>Handle_start = 1048576, Handle_sizeInBytes = 64, Handle_ownerUID = 7\<rparr>,
         processOf (MetaAllocator_allocate (testConfig None) testReserve 0 (testProcess 0) 64 7)
           (testProcess 0))"
    by blast
  then have 2: "handleOf (ExecutableAllocator_allocate (MetaAllocator_allocate (testConfig None) testReserve 0)
       (testProcess 0) 64 7 JITCompilationMustSucceed)
     = Some \<lparr>Handle_start = 1048576, Handle_sizeInBytes = 64, Handle_ownerUID = 7\<rparr>"
    by (simp only: handleOf_def completion.case prod.case)
  from 1 2 show ?thesis by blast
qed

subsection \<open>Growth under a limit\<close>




end
